theory Spec2Isabelle
  imports Complex_Main
begin

section \<open>Python values and exceptions\<close>

text \<open>
  Values that the experiment only passes on to its collaborators (configuration entries,
  cache directories, seeds, sample counts) are kept as Python values.
\<close>

datatype pyval =
    PNone
  | PBool bool
  | PInt int
  | PFloat real
  | PStr string
  | PList "pyval list"
  | PDict "(string \<times> pyval) list"

text \<open>
  Exceptions are values. \<open>KeyError\<close> carries the missing key, \<open>AttributeError\<close> the
  name of the missing attribute, the others \<open>str(error)\<close>. \<open>ValueError m\<close> stands for
  every exception that \<^verbatim>\<open>except ValueError\<close> catches; \<open>OtherError cls m\<close> for an
  exception of any other class raised by a collaborator. \<open>InvalidDimension\<close> is the
  error of the feature reducer (a \<^verbatim>\<open>ValueError\<close> to \<^verbatim>\<open>pytest.raises\<close> in
  \<^verbatim>\<open>tests/test_parc.py\<close>); it is only ever raised inside a metric.
\<close>

datatype error =
    KeyError pyval
  | AttributeError string
  | TypeError string
  | IndexError string
  | ValueError string
  | NotImplementedError string
  | InvalidDimension
  | OtherError string string

section \<open>The PARC metric (\<^verbatim>\<open>locomoset/metrics/parc.py\<close>)\<close>

text \<open>
  \<^verbatim>\<open>parc.py\<close> is not among the sources; only its tests are
  (\<^verbatim>\<open>tests/test_parc.py\<close>). Its functions are modelled from the specification.
\<close>

type_synonym matrix = "real list list"

text \<open>
  Modelled from the spec: \<^verbatim>\<open>_lower_tri_arr\<close> is missing. Section 4.2: for a square
  matrix of size n, the strictly-upper-triangular entries (excluding the diagonal) as a
  flat ordered sequence: the entries at \<open>(i, j)\<close> with \<open>i < j < n\<close>, row by row.
\<close>

definition lower_tri_arr :: "'a list list \<Rightarrow> 'a list" where
  "lower_tri_arr arr =
     concat (map (\<lambda>i. map (\<lambda>j. arr ! i ! j) [Suc i..<length arr]) [0..<length arr])"

text \<open>A matrix is a list of rows; it is square of size n when it has n rows of length n.\<close>

definition square :: "nat \<Rightarrow> 'a list list \<Rightarrow> bool" where
  "square n arr \<longleftrightarrow> length arr = n \<and> list_all (\<lambda>row. length row = n) arr"

text \<open>
  \<^verbatim>\<open>test_lower_tri\<close>: \<^verbatim>\<open>np.array([i + 1 for i in range(n**2)]).reshape((n, n))\<close>
  and the analytical sum of its upper triangular values, with Python's true division.
\<close>

definition test_arr :: "nat \<Rightarrow> int list list" where
  "test_arr n = map (\<lambda>i. map (\<lambda>j. int (i * n + j) + 1) [0..<n]) [0..<n]"

definition analytical_sum :: "nat \<Rightarrow> real" where
  "analytical_sum n =
     (real n ^ 2 * (real n ^ 2 + 1)) / 2
     - sum_list (map (\<lambda>k. (real k * (real k * (2 * real n + 1) - 2 * real n + 1)) / 2)
                     [1..<n + 1])"

text \<open>
  The shape of a matrix. An array with no rows has no column count in a list of rows; the
  minimum of its two dimensions is 0 whatever the column count.
\<close>

definition shape :: "matrix \<Rightarrow> nat \<times> nat" where
  "shape F = (length F, (case F of [] \<Rightarrow> 0 | row # _ \<Rightarrow> length row))"

text \<open>
  Modelled from the spec: \<^verbatim>\<open>_feature_reduce\<close> is missing. Section 4.1: given
  \<open>F\<close> (n by d), a seed and a target dimension \<open>f\<close>: if \<open>f\<close> is unset return \<open>F\<close>
  unchanged; if \<open>f\<close> exceeds \<open>min(n, d)\<close> fail with InvalidDimension; otherwise return
  the projection of \<open>F\<close> to \<open>f\<close> components. The projection itself (a PCA in floating
  point) is the parameter \<open>pca\<close>.
\<close>

definition feature_reduce ::
  "(matrix \<Rightarrow> pyval \<Rightarrow> nat \<Rightarrow> matrix) \<Rightarrow> matrix \<Rightarrow> pyval \<Rightarrow> nat option \<Rightarrow> error + matrix" where
  "feature_reduce pca features random_state f =
     (case f of
        None \<Rightarrow> Inr features
      | Some k \<Rightarrow>
          if k > min (fst (shape features)) (snd (shape features)) then Inl InvalidDimension
          else Inr (pca features random_state k))"

section \<open>Computations with a trace and exceptions\<close>

text \<open>
  A computation runs on a state and either returns a value or raises; the state reached
  is kept in both cases, as a Python object keeps what was assigned before an exception.
\<close>

datatype 'a outcome = Raised error | Returned 'a

type_synonym ('s, 'a) comp = "'s \<Rightarrow> 's \<times> 'a outcome"

definition returns :: "'a \<Rightarrow> ('s, 'a) comp" where
  "returns x = (\<lambda>s. (s, Returned x))"

definition raises :: "error \<Rightarrow> ('s, 'a) comp" where
  "raises e = (\<lambda>s. (s, Raised e))"

definition and_then :: "('s, 'a) comp \<Rightarrow> ('a \<Rightarrow> ('s, 'b) comp) \<Rightarrow> ('s, 'b) comp" where
  "and_then m f =
     (\<lambda>s. case m s of (s', Raised e) \<Rightarrow> (s', Raised e) | (s', Returned x) \<Rightarrow> f x s')"

definition of_result :: "error + 'a \<Rightarrow> ('s, 'a) comp" where
  "of_result r = (case r of Inl e \<Rightarrow> raises e | Inr x \<Rightarrow> returns x)"

text \<open>\<^verbatim>\<open>d[k]\<close> on a dict with string keys, and reading an attribute that may be unset.\<close>

definition getitem :: "(string \<rightharpoonup> 'v) \<Rightarrow> string \<Rightarrow> ('s, 'v) comp" where
  "getitem d k = (case d k of None \<Rightarrow> raises (KeyError (PStr k)) | Some v \<Rightarrow> returns v)"

definition getattr :: "string \<Rightarrow> 'v option \<Rightarrow> ('s, 'v) comp" where
  "getattr name attr = (case attr of None \<Rightarrow> raises (AttributeError name) | Some v \<Rightarrow> returns v)"

text \<open>\<^verbatim>\<open>d[k] = v\<close> on an insertion-ordered dict.\<close>

fun dict_set :: "('k \<times> 'v) list \<Rightarrow> 'k \<Rightarrow> 'v \<Rightarrow> ('k \<times> 'v) list" where
  "dict_set [] k v = [(k, v)]"
| "dict_set ((k', v') # d) k v =
     (if k' = k then (k, v) # d else (k', v') # dict_set d k v)"

definition startswith :: "string \<Rightarrow> string \<Rightarrow> bool" where
  "startswith s p \<longleftrightarrow> take (length p) s = p"

section \<open>Data of the experiment\<close>

text \<open>
  A dataset is an ordered sequence of samples, each an image (an opaque identifier) and
  the index of its label; \<^verbatim>\<open>dataset["label"]\<close> is the column of label indices.
\<close>

type_synonym sample = "nat \<times> nat"
type_synonym dataset = "sample list"

datatype model = Model string
datatype processor = Processor string
datatype device = Device "string option" | TorchDevice string
datatype stratify = StratifyDefault | StratifyBy "string option"

datatype model_input = NoInput | Features matrix | ModelInput model

text \<open>
  A metric object (\<^verbatim>\<open>locomoset.metrics.classes.Metric\<close>, not among the sources): its
  attributes and its \<^verbatim>\<open>fit_metric(model_input, dataset_input)\<close>, which may raise.
\<close>

record metric =
  metric_name :: string
  inference_type :: "string option"
  dataset_dependent :: bool
  fit_metric :: "model_input \<Rightarrow> nat list \<Rightarrow> error + real"

text \<open>
  The results dict: the entries of \<^verbatim>\<open>config.to_dict()\<close> under keys other than
  \<^verbatim>\<open>"inference_times"\<close> and \<^verbatim>\<open>"metric_scores"\<close>, and the dicts under these two
  keys (an entry of \<^verbatim>\<open>metric_scores\<close> is itself a dict, with keys
  \<^verbatim>\<open>"score"\<close> and \<^verbatim>\<open>"time"\<close> once filled).
\<close>

record results =
  config_entries :: "string \<rightharpoonup> pyval"
  inference_times :: "string option \<rightharpoonup> real"
  metric_scores :: "string \<rightharpoonup> (string \<rightharpoonup> real)"

text \<open>
  The per-run configuration (\<^verbatim>\<open>MetricConfig\<close>, a subclass of \<^verbatim>\<open>Config\<close> that is
  not among the sources): the attributes that \<^verbatim>\<open>experiment.py\<close> and
  \<^verbatim>\<open>Config.init_wandb\<close> read.
\<close>

record config =
  config_model_name :: string
  config_dataset_name :: string
  config_dataset_args :: "string \<rightharpoonup> pyval"
  config_n_samples :: pyval
  config_metrics_samples :: pyval
  config_random_state :: pyval
  config_metrics :: "string list"
  config_metric_kwargs :: "string \<rightharpoonup> (string \<times> pyval) list"
  config_caches :: "(string \<rightharpoonup> pyval) option"
  config_save_dir :: string
  config_device :: "string option"
  config_local_save :: bool
  config_use_wandb :: bool
  config_wandb_args :: "string \<rightharpoonup> pyval"
  config_run_name :: string
  config_config_gen_dtime :: "string option"

text \<open>
  What the program does to the outside, in order: calls of collaborators (with the
  arguments the properties speak about), warnings, and entries into
  \<^verbatim>\<open>perform_inference\<close>, \<^verbatim>\<open>features_inference\<close> and \<^verbatim>\<open>model_inference\<close>.
\<close>

datatype event =
    CallLoadDataset string pyval pyval pyval pyval
  | CallCreateDataSplits
  | CallDropImages dataset pyval pyval stratify
  | Warn string
  | CallMakedirs string
  | CallPerformInference "string option"
  | CallFeaturesInference
  | CallModelInference
  | CallGetModelWithoutHead string pyval
  | CallGetProcessor string pyval
  | CallGetFeatures dataset processor model device
  | CallFitMetric string "string option" model_input "nat list"
  | CallJsonDump string results
  | CallWandbLog results
  | CallWandbFinish
  | CallWandbLogin
  | CallWandbInit "string \<rightharpoonup> pyval" "string \<rightharpoonup> pyval"
  | SetEnviron string pyval
  | CallDisableCaching

text \<open>
  The world outside the experiment object: the events so far, the number of clock
  readings taken, and whether a wandb run is active (\<^verbatim>\<open>wandb.run is not None\<close>).
\<close>

record world =
  trace :: "event list"
  ticks :: nat
  wandb_run :: bool

text \<open>
  The collaborators, none of them among the sources, as parameters: the metric registry
  \<^verbatim>\<open>METRICS\<close> (name to constructor, called with \<^verbatim>\<open>random_state\<close> and keyword
  arguments), the iteration order of a Python \<^verbatim>\<open>set\<close> built from a sequence, the
  dataset and model providers, \<^verbatim>\<open>MetricConfig.to_dict\<close>, the file system, the clock
  (the value of the k-th call of \<^verbatim>\<open>time()\<close>) and wandb. Each may raise.
\<close>

record env =
  METRICS :: "string \<rightharpoonup> (pyval \<Rightarrow> (string \<times> pyval) list \<Rightarrow> error + metric)"
  set_order :: "string option list \<Rightarrow> string option list"
  cuda_is_available :: bool
  load_dataset :: "string \<Rightarrow> pyval \<Rightarrow> pyval \<Rightarrow> pyval \<Rightarrow> pyval \<Rightarrow> error + (pyval \<rightharpoonup> dataset)"
  create_data_splits ::
    "(pyval \<rightharpoonup> dataset) \<Rightarrow> pyval \<Rightarrow> pyval \<Rightarrow> pyval \<Rightarrow> pyval \<Rightarrow> pyval \<Rightarrow> pyval
       \<Rightarrow> error + (pyval \<rightharpoonup> dataset)"
  drop_images :: "dataset \<Rightarrow> pyval \<Rightarrow> pyval \<Rightarrow> stratify \<Rightarrow> error + dataset"
  get_model_without_head :: "string \<Rightarrow> pyval \<Rightarrow> error + model"
  get_processor :: "string \<Rightarrow> pyval \<Rightarrow> error + processor"
  get_features :: "dataset \<Rightarrow> processor \<Rightarrow> model \<Rightarrow> device \<Rightarrow> error + matrix"
  to_dict :: "config \<Rightarrow> (string \<rightharpoonup> pyval)"
  makedirs :: "string \<Rightarrow> error + unit"
  now_str :: string
  time :: "nat \<Rightarrow> real"
  json_dump :: "string \<Rightarrow> results \<Rightarrow> error + unit"
  wandb_login :: "error + unit"
  wandb_init :: "(string \<rightharpoonup> pyval) \<Rightarrow> (string \<rightharpoonup> pyval) \<Rightarrow> error + unit"
  wandb_log :: "results \<Rightarrow> error + unit"
  wandb_finish :: "error + unit"

text \<open>The attributes of a \<^verbatim>\<open>ModelMetricsExperiment\<close>; the two caches may be unset.\<close>

record model_metrics_experiment =
  model_name :: string
  random_state :: pyval
  metrics :: "(string \<times> metric) list"
  inference_types :: "string option list"
  dataset_cache :: "pyval option"
  model_cache :: "pyval option"
  device :: device
  dataset_name :: string
  dataset :: dataset
  n_samples :: pyval
  metrics_samples :: pyval
  labels :: "nat list"
  results :: results
  save_dir :: string
  save_path :: string

text \<open>
  Effects on the world, for a state that pairs the object at hand with the world.
  Console output (\<^verbatim>\<open>print\<close>) is not modelled.
\<close>

definition emit :: "event \<Rightarrow> ('a \<times> world, unit) comp" where
  "emit e = (\<lambda>(self, w). ((self, w\<lparr>trace := trace w @ [e]\<rparr>), Returned ()))"

definition call :: "event \<Rightarrow> error + 'b \<Rightarrow> ('a \<times> world, 'b) comp" where
  "call e r = and_then (emit e) (\<lambda>_. of_result r)"

definition time_now :: "env \<Rightarrow> ('a \<times> world, real) comp" where
  "time_now env = (\<lambda>(self, w). ((self, w\<lparr>ticks := Suc (ticks w)\<rparr>), Returned (time env (ticks w))))"

definition get_self :: "('a \<times> world, 'a) comp" where
  "get_self = (\<lambda>(self, w). ((self, w), Returned self))"

definition modify_self :: "('a \<Rightarrow> 'a) \<Rightarrow> ('a \<times> world, unit) comp" where
  "modify_self f = (\<lambda>(self, w). ((f self, w), Returned ()))"

section \<open>\<^verbatim>\<open>ModelMetricsExperiment\<close> (\<^verbatim>\<open>src/locomoset/metrics/experiment.py\<close>)\<close>

subsection \<open>\<^verbatim>\<open>__init__\<close>\<close>

text \<open>
  Lines 57 to 63: the dict comprehension over \<^verbatim>\<open>config.metrics\<close>. For each name, in
  order: \<^verbatim>\<open>METRICS[metric]\<close>, then the keyword arguments
  \<^verbatim>\<open>metric_kwargs_dict.get(metric, {})\<close>, then the constructor call; a repeated name
  keeps its place and takes the newer object.
\<close>

fun make_metrics ::
  "env \<Rightarrow> config \<Rightarrow> string list \<Rightarrow> (string \<times> metric) list \<Rightarrow> ('s, (string \<times> metric) list) comp" where
  "make_metrics env config [] acc = returns acc"
| "make_metrics env config (metric # rest) acc =
     and_then (getitem (METRICS env) metric) (\<lambda>constructor.
     and_then (of_result (constructor (config_random_state config)
                 (case config_metric_kwargs config metric of None \<Rightarrow> [] | Some kw \<Rightarrow> kw))) (\<lambda>obj.
     make_metrics env config rest (dict_set acc metric obj)))"

definition stratify_error_prefix :: string where
  "stratify_error_prefix = ''The least populated class in label column has only 1 member''"

definition stratify_warning :: string where
  "stratify_warning =
     ''The train set has only one sample of some classes so can'' @ [CHR 0x27] @ ''t be ''
     @ ''further subsetted with stratification to create the metrics set. ''
     @ ''A random split has been used instead.''"

text \<open>
  Lines 111 to 135: the train set is further subsetted to \<^verbatim>\<open>metrics_samples\<close>. The
  first \<^verbatim>\<open>drop_images\<close> call leaves \<^verbatim>\<open>stratify_by_column\<close> at its default. A
  \<^verbatim>\<open>ValueError\<close> whose text starts with the prefix is answered with a warning and a
  second call with \<^verbatim>\<open>stratify_by_column=None\<close> on the same dataset; any other
  \<^verbatim>\<open>ValueError\<close> is raised again, any other exception is not caught.
\<close>

definition create_metrics_dataset :: "env \<Rightarrow> config \<Rightarrow> dataset \<Rightarrow> ('a \<times> world, dataset) comp" where
  "create_metrics_dataset env config train =
     (\<lambda>s. case call (CallDropImages train (config_metrics_samples config)
                       (config_random_state config) StratifyDefault)
                     (drop_images env train (config_metrics_samples config)
                       (config_random_state config) StratifyDefault) s of
             (s', Returned ds) \<Rightarrow> (s', Returned ds)
           | (s', Raised error) \<Rightarrow>
               (case error of
                  ValueError msg \<Rightarrow>
                    if startswith msg stratify_error_prefix then
                      and_then (emit (Warn stratify_warning)) (\<lambda>_.
                        call (CallDropImages train (config_metrics_samples config)
                               (config_random_state config) (StratifyBy None))
                             (drop_images env train (config_metrics_samples config)
                               (config_random_state config) (StratifyBy None))) s'
                    else (s', Raised error)
                | _ \<Rightarrow> (s', Raised error)))"

text \<open>
  The constructor, in the order of the source. \<^verbatim>\<open>self.dataset_cache\<close> and
  \<^verbatim>\<open>self.model_cache\<close> are assigned only when \<^verbatim>\<open>config.caches\<close> is not
  \<^verbatim>\<open>None\<close> (lines 69 to 71) and \<^verbatim>\<open>self.dataset_cache\<close> is read as the fourth
  argument of \<^verbatim>\<open>load_dataset\<close> (line 85). The results dict is
  \<^verbatim>\<open>config.to_dict()\<close> with the two keys \<^verbatim>\<open>"inference_times"\<close> and
  \<^verbatim>\<open>"metric_scores"\<close> set to empty dicts (lines 140 to 142).
\<close>

definition init :: "env \<Rightarrow> config \<Rightarrow> ('a \<times> world, model_metrics_experiment) comp" where
  "init env config =
     and_then (make_metrics env config (config_metrics config) []) (\<lambda>metrics.
     and_then (case config_caches config of
                 None \<Rightarrow> returns (None, None)
               | Some caches \<Rightarrow>
                   and_then (getitem caches ''datasets'') (\<lambda>d.
                   and_then (getitem caches ''models'') (\<lambda>m.
                   returns (Some d, Some m)))) (\<lambda>(dataset_cache, model_cache).
     and_then (getitem (config_dataset_args config) ''image_field'') (\<lambda>image_field.
     and_then (getitem (config_dataset_args config) ''label_field'') (\<lambda>label_field.
     and_then (getattr ''dataset_cache'' dataset_cache) (\<lambda>cache_dir.
     and_then (getitem (config_dataset_args config) ''keep_labels'') (\<lambda>keep_labels.
     and_then (call (CallLoadDataset (config_dataset_name config) image_field label_field
                       cache_dir keep_labels)
                    (load_dataset env (config_dataset_name config) image_field label_field
                       cache_dir keep_labels)) (\<lambda>loaded.
     and_then (getitem (config_dataset_args config) ''train_split'') (\<lambda>train_split.
     and_then (getitem (config_dataset_args config) ''val_split'') (\<lambda>val_split.
     and_then (getitem (config_dataset_args config) ''test_split'') (\<lambda>test_split.
     and_then (getitem (config_dataset_args config) ''val_size'') (\<lambda>val_size.
     and_then (getitem (config_dataset_args config) ''test_size'') (\<lambda>test_size.
     and_then (call CallCreateDataSplits
                    (create_data_splits env loaded train_split val_split test_split
                       (config_random_state config) val_size test_size)) (\<lambda>splits.
     and_then (getitem (config_dataset_args config) ''train_split'') (\<lambda>train_key.
     and_then (case splits train_key of
                 None \<Rightarrow> raises (KeyError train_key)
               | Some d \<Rightarrow> returns d) (\<lambda>train.
     and_then (call (CallDropImages train (config_n_samples config)
                       (config_random_state config) StratifyDefault)
                    (drop_images env train (config_n_samples config)
                       (config_random_state config) StratifyDefault)) (\<lambda>train.
     and_then (create_metrics_dataset env config train) (\<lambda>ds.
     and_then (call (CallMakedirs (config_save_dir config))
                    (makedirs env (config_save_dir config))) (\<lambda>_.
     returns \<lparr>
       model_name = config_model_name config,
       random_state = config_random_state config,
       metrics = metrics,
       inference_types = set_order env (map (\<lambda>(name, obj). inference_type obj) metrics),
       dataset_cache = dataset_cache,
       model_cache = model_cache,
       device = (if config_device config = Some ''cuda''
                 then TorchDevice (if cuda_is_available env then ''cuda'' else ''cpu'')
                 else Device (config_device config)),
       dataset_name = config_dataset_name config,
       dataset = ds,
       n_samples = config_n_samples config,
       metrics_samples = config_metrics_samples config,
       labels = map snd ds,
       results = \<lparr>
         config_entries = to_dict env config |` (- {''inference_times'', ''metric_scores''}),
         inference_times = Map.empty,
         metric_scores = Map.empty\<rparr>,
       save_dir = config_save_dir config,
       save_path = config_save_dir config @ ''/results_'' @ now_str env @ ''.json''
     \<rparr>))))))))))))))))))"

subsection \<open>The methods\<close>

type_synonym 'a on_self = "(model_metrics_experiment \<times> world, 'a) comp"

definition features_inference :: "env \<Rightarrow> matrix on_self" where
  "features_inference env =
     and_then (emit CallFeaturesInference) (\<lambda>_.
     and_then get_self (\<lambda>self.
     and_then (getattr ''model_cache'' (model_cache self)) (\<lambda>cache.
     and_then (call (CallGetModelWithoutHead (model_name self) cache)
                    (get_model_without_head env (model_name self) cache)) (\<lambda>model_fn.
     and_then (getattr ''model_cache'' (model_cache self)) (\<lambda>cache.
     and_then (call (CallGetProcessor (model_name self) cache)
                    (get_processor env (model_name self) cache)) (\<lambda>processor.
     call (CallGetFeatures (dataset self) processor model_fn (device self))
          (get_features env (dataset self) processor model_fn (device self))))))))"

definition model_inference :: "env \<Rightarrow> model on_self" where
  "model_inference env =
     and_then (emit CallModelInference) (\<lambda>_.
     and_then get_self (\<lambda>self.
     and_then (getattr ''model_cache'' (model_cache self)) (\<lambda>cache.
     call (CallGetModelWithoutHead (model_name self) cache)
          (get_model_without_head env (model_name self) cache))))"

definition not_implemented_message :: "string \<Rightarrow> string" where
  "not_implemented_message itype =
     ''Not implemented inference for type '' @ [CHR 0x27] @ itype @ [CHR 0x27]"

definition perform_inference :: "env \<Rightarrow> string option \<Rightarrow> (model_input \<times> real) on_self" where
  "perform_inference env itype =
     and_then (emit (CallPerformInference itype)) (\<lambda>_.
     and_then (time_now env) (\<lambda>inference_start.
     if itype = Some ''features'' then
       and_then (features_inference env) (\<lambda>features.
       and_then (time_now env) (\<lambda>t. returns (Features features, t - inference_start)))
     else if itype = Some ''model'' then
       and_then (model_inference env) (\<lambda>model.
       and_then (time_now env) (\<lambda>t. returns (ModelInput model, t - inference_start)))
     else (case itype of
             Some other \<Rightarrow> raises (NotImplementedError (not_implemented_message other))
           | None \<Rightarrow>
               and_then (time_now env) (\<lambda>t. returns (NoInput, t - inference_start)))))"

definition compute_metric_score ::
  "env \<Rightarrow> metric \<Rightarrow> model_input \<Rightarrow> nat list \<Rightarrow> (real \<times> real) on_self" where
  "compute_metric_score env metric model_input dataset_input =
     and_then (time_now env) (\<lambda>metric_start.
     and_then (call (CallFitMetric (metric_name metric) (inference_type metric)
                       model_input dataset_input)
                    (fit_metric metric model_input dataset_input)) (\<lambda>score.
     and_then (time_now env) (\<lambda>t. returns (score, t - metric_start))))"

text \<open>The assignments into the results dict made by \<^verbatim>\<open>run_experiment\<close>.\<close>

definition set_inference_time :: "string option \<Rightarrow> real \<Rightarrow> model_metrics_experiment \<Rightarrow> model_metrics_experiment" where
  "set_inference_time itype inference_time self =
     self\<lparr>results := (results self)
       \<lparr>inference_times := (inference_times (results self))(itype \<mapsto> inference_time)\<rparr>\<rparr>"

definition set_metric_entry :: "string \<Rightarrow> (string \<rightharpoonup> real) \<Rightarrow> model_metrics_experiment \<Rightarrow> model_metrics_experiment" where
  "set_metric_entry metric entry self =
     self\<lparr>results := (results self)
       \<lparr>metric_scores := (metric_scores (results self))(metric \<mapsto> entry)\<rparr>\<rparr>"

definition set_metric_field :: "string \<Rightarrow> string \<Rightarrow> real \<Rightarrow> unit on_self" where
  "set_metric_field metric key v =
     and_then get_self (\<lambda>self.
     and_then (getitem (metric_scores (results self)) metric) (\<lambda>entry.
     modify_self (set_metric_entry metric (entry(key \<mapsto> v)))))"

text \<open>
  Lines 235 to 239: the names of the metrics whose \<^verbatim>\<open>inference_type\<close> equals the one
  at hand, in the order of \<^verbatim>\<open>self.metrics\<close>.
\<close>

definition test_metrics :: "model_metrics_experiment \<Rightarrow> string option \<Rightarrow> string list" where
  "test_metrics self t =
     map fst (filter (\<lambda>(name, metric_obj). inference_type metric_obj = t) (metrics self))"

text \<open>Lines 240 to 249: the inner loop over the metrics of one inference type.\<close>

fun score_metrics :: "env \<Rightarrow> model_input \<Rightarrow> string list \<Rightarrow> unit on_self" where
  "score_metrics env model_input [] = returns ()"
| "score_metrics env model_input (metric # rest) =
     and_then (modify_self (set_metric_entry metric Map.empty)) (\<lambda>_.
     and_then get_self (\<lambda>self.
     and_then (case map_of (metrics self) metric of
                 None \<Rightarrow> raises (KeyError (PStr metric))
               | Some obj \<Rightarrow> returns obj) (\<lambda>obj.
     and_then (compute_metric_score env obj model_input (labels self)) (\<lambda>(score, metric_time).
     and_then (set_metric_field metric ''score'' score) (\<lambda>_.
     and_then (set_metric_field metric ''time'' metric_time) (\<lambda>_.
     score_metrics env model_input rest))))))"

text \<open>Lines 229 to 249: the outer loop over \<^verbatim>\<open>self.inference_types\<close>.\<close>

fun run_inference_types :: "env \<Rightarrow> string option list \<Rightarrow> unit on_self" where
  "run_inference_types env [] = returns ()"
| "run_inference_types env (itype # rest) =
     and_then (perform_inference env itype) (\<lambda>(model_input, inference_time).
     and_then (modify_self (set_inference_time itype inference_time)) (\<lambda>_.
     and_then get_self (\<lambda>self.
     and_then (score_metrics env model_input (test_metrics self itype)) (\<lambda>_.
     run_inference_types env rest))))"

definition run_experiment :: "env \<Rightarrow> unit on_self" where
  "run_experiment env =
     and_then get_self (\<lambda>self. run_inference_types env (inference_types self))"

definition save_results :: "env \<Rightarrow> unit on_self" where
  "save_results env =
     and_then get_self (\<lambda>self.
     call (CallJsonDump (save_path self) (results self))
          (json_dump env (save_path self) (results self)))"

definition log_wandb_results :: "env \<Rightarrow> unit on_self" where
  "log_wandb_results env =
     and_then get_self (\<lambda>self.
     and_then (call (CallWandbLog (results self)) (wandb_log env (results self))) (\<lambda>_.
     and_then (call CallWandbFinish (wandb_finish env)) (\<lambda>_.
     (\<lambda>(self, w). ((self, w\<lparr>wandb_run := False\<rparr>), Returned ())))))"

section \<open>\<^verbatim>\<open>Config.init_wandb\<close> and \<^verbatim>\<open>run_config\<close>\<close>

definition create_wandb_names :: "string \<Rightarrow> string option \<Rightarrow> string" where
  "create_wandb_names name additional_name =
     (let short = (if length name > 64 then drop (length name - 25) name else name) in
      case additional_name of
        Some a \<Rightarrow> map (\<lambda>c. if c = CHR ''/'' then CHR ''-'' else c) (short @ ''_'' @ a)
      | None \<Rightarrow> short)"

definition get_world :: "('a \<times> world, world) comp" where
  "get_world = (\<lambda>(self, w). ((self, w), Returned w))"

definition set_wandb_run :: "bool \<Rightarrow> ('a \<times> world, unit) comp" where
  "set_wandb_run b = (\<lambda>(self, w). ((self, w\<lparr>wandb_run := b\<rparr>), Returned ()))"

text \<open>
  \<^verbatim>\<open>config_classes.py\<close>, lines 90 to 133. Values written to \<^verbatim>\<open>os.environ\<close> are
  taken to be strings.
\<close>

definition init_wandb :: "env \<Rightarrow> config \<Rightarrow> ('a \<times> world, unit) comp" where
  "init_wandb env config =
     (if \<not> config_use_wandb config then
        emit (Warn ''Ignored wandb initialisation as use_wandb=False'')
      else
        and_then get_world (\<lambda>w.
        if wandb_run w then raises (ValueError ''A wandb run has already been initialised'')
        else
          and_then (case config_caches config of
                      None \<Rightarrow> raises (TypeError ''argument of type NoneType is not iterable'')
                    | Some caches \<Rightarrow>
                        (case caches ''wandb'' of
                           None \<Rightarrow> returns ()
                         | Some dir \<Rightarrow>
                             and_then (emit (SetEnviron ''WANDB_CACHE_DIR'' dir)) (\<lambda>_.
                             emit (SetEnviron ''WANDB_DATA_DIR'' dir)))) (\<lambda>_.
          and_then (call CallWandbLogin (wandb_login env)) (\<lambda>_.
          and_then (case config_wandb_args config ''log_model'' of
                      None \<Rightarrow> returns (config_wandb_args config)
                    | Some v \<Rightarrow>
                        and_then (emit (SetEnviron ''WANDB_LOG_MODEL'' v)) (\<lambda>_.
                        returns ((config_wandb_args config)(''log_model'' := None)))) (\<lambda>c1.
          and_then (returns (if c1 ''name'' = None
                             then c1(''name'' \<mapsto> PStr (config_run_name config))
                             else c1)) (\<lambda>c2.
          and_then (if c2 ''group'' = None then
                      (case config_config_gen_dtime config of
                         Some dtime \<Rightarrow>
                           if length dtime < 8 then raises (IndexError ''string index out of range'')
                           else returns (c2(''group'' \<mapsto> PStr (create_wandb_names
                                   (config_dataset_name config) (Some [dtime ! (length dtime - 8)]))))
                       | None \<Rightarrow>
                           returns (c2(''group'' \<mapsto> PStr (create_wandb_names
                                   (config_dataset_name config) None))))
                    else returns c2) (\<lambda>wandb_config.
          if wandb_config ''job_type'' = None then raises (ValueError ''No Job type given'')
          else
            and_then (call (CallWandbInit (to_dict env config) wandb_config)
                           (wandb_init env (to_dict env config) wandb_config)) (\<lambda>_.
            set_wandb_run True))))))))"

text \<open>Running methods on a freshly built object from a caller that holds no object.\<close>

definition with_self :: "model_metrics_experiment \<Rightarrow> 'b on_self \<Rightarrow> ('a \<times> world, 'b) comp" where
  "with_self self m =
     (\<lambda>(x, w). case m (self, w) of ((self', w'), r) \<Rightarrow> ((x, w'), r))"

text \<open>\<^verbatim>\<open>experiment.py\<close>, lines 263 to 296.\<close>

definition run_config :: "env \<Rightarrow> config \<Rightarrow> ('a \<times> world, unit) comp" where
  "run_config env config =
     and_then (if config_use_wandb config then init_wandb env config else returns ()) (\<lambda>_.
     and_then (case config_caches config of
                 None \<Rightarrow> raises (AttributeError ''get'')
               | Some caches \<Rightarrow>
                   if caches ''preprocess_cache'' = Some (PStr ''tmp'')
                   then emit CallDisableCaching else returns ()) (\<lambda>_.
     and_then (init env config) (\<lambda>model_experiment.
     with_self model_experiment
       (and_then (run_experiment env) (\<lambda>_.
        and_then (if config_local_save config then save_results env else returns ()) (\<lambda>_.
        if config_use_wandb config then log_wandb_results env else returns ()))))))"

section \<open>The PARC metric class\<close>

text \<open>
  Modelled from the spec: \<^verbatim>\<open>PARCMetric.fit_metric\<close> is missing. Section 4.3: optionally
  standardise the features, reduce them with the feature reducer of section 4.1, compute
  the pairwise structure among samples from the features and from the labels, extract the
  upper-triangular entries of each, and return their rank correlation scaled to 0..100.
  The floating-point operations (scaling, projection, the two pairwise matrices and the
  rank correlation) are parameters; a failure of the feature reducer is not caught.
\<close>

record parc_ops =
  scale :: "matrix \<Rightarrow> matrix"
  pca :: "matrix \<Rightarrow> pyval \<Rightarrow> nat \<Rightarrow> matrix"
  feature_structure :: "matrix \<Rightarrow> matrix"
  label_structure :: "nat list \<Rightarrow> matrix"
  rank_correlation :: "real list \<Rightarrow> real list \<Rightarrow> real"

record parc_metric =
  parc_random_state :: pyval
  feat_red_dim :: "nat option"
  scale_features :: bool

definition parc_fit_metric :: "parc_ops \<Rightarrow> parc_metric \<Rightarrow> matrix \<Rightarrow> nat list \<Rightarrow> error + real" where
  "parc_fit_metric ops self features labs =
     (case feature_reduce (pca ops)
             (if scale_features self then scale ops features else features)
             (parc_random_state self) (feat_red_dim self) of
        Inl e \<Rightarrow> Inl e
      | Inr reduced \<Rightarrow>
          Inr (100 * rank_correlation ops
                 (lower_tri_arr (feature_structure ops reduced))
                 (lower_tri_arr (label_structure ops labs))))"

text \<open>
  The PARC metric as the experiment sees it: a metric object with
  \<^verbatim>\<open>metric_name == "parc"\<close>, \<^verbatim>\<open>inference_type == "features"\<close> and
  \<^verbatim>\<open>dataset_dependent is True\<close> (\<^verbatim>\<open>test_parc.py\<close>, lines 15 to 17). A model input
  that is not a feature matrix is outside the contract of section 4.3.
\<close>

definition PARCMetric :: "parc_ops \<Rightarrow> parc_metric \<Rightarrow> metric" where
  "PARCMetric ops self = \<lparr>
     metric_name = ''parc'',
     inference_type = Some ''features'',
     dataset_dependent = True,
     fit_metric = (\<lambda>model_input dataset_input.
       case model_input of
         Features features \<Rightarrow> parc_fit_metric ops self features dataset_input
       | _ \<Rightarrow> Inl (TypeError ''model_input is not a feature matrix''))\<rparr>"

section \<open>Reading a trace\<close>

text \<open>
  The events a run adds to a world, and the kinds of event the properties speak about:
  inference work (entering \<^verbatim>\<open>features_inference\<close> or \<^verbatim>\<open>model_inference\<close>, or calling the model provider), scoring
  (a call of \<^verbatim>\<open>fit_metric\<close>) and persistence (a JSON dump of the results).
\<close>

definition new_events :: "world \<Rightarrow> world \<Rightarrow> event list" where
  "new_events w w' = drop (length (trace w)) (trace w')"

fun is_inference_work :: "event \<Rightarrow> bool" where
  "is_inference_work CallFeaturesInference = True"
| "is_inference_work CallModelInference = True"
| "is_inference_work (CallGetModelWithoutHead name cache) = True"
| "is_inference_work (CallGetProcessor name cache) = True"
| "is_inference_work (CallGetFeatures ds processor model_fn dev) = True"
| "is_inference_work _ = False"

fun is_fit :: "event \<Rightarrow> bool" where
  "is_fit (CallFitMetric name t model_input dataset_input) = True"
| "is_fit _ = False"

fun is_json_dump :: "event \<Rightarrow> bool" where
  "is_json_dump (CallJsonDump path res) = True"
| "is_json_dump _ = False"

text \<open>The inference types the experiment implements (\<^verbatim>\<open>perform_inference\<close>).\<close>

definition supported :: "string option \<Rightarrow> bool" where
  "supported t \<longleftrightarrow> t = Some ''features'' \<or> t = Some ''model'' \<or> t = None"

text \<open>
  What is assumed of the iteration order of a Python set: each member once, in some order.
\<close>

definition set_order_ok :: "env \<Rightarrow> bool" where
  "set_order_ok env \<longleftrightarrow> (\<forall>xs. distinct (set_order env xs) \<and> set (set_order env xs) = set xs)"

text \<open>The event of scoring metric object \<open>m\<close> of experiment \<open>self\<close> on model input \<open>a\<close>.\<close>

definition fit_event :: "model_metrics_experiment \<Rightarrow> model_input \<Rightarrow> metric \<Rightarrow> event" where
  "fit_event self a m = CallFitMetric (metric_name m) (inference_type m) a (labels self)"

text \<open>
  What the artifact of a pass of type \<open>t\<close> is: nothing, a model, or the feature matrix
  that \<^verbatim>\<open>get_features\<close> returns on the dataset and device of the experiment.
\<close>

definition artifact_of :: "env \<Rightarrow> model_metrics_experiment \<Rightarrow> string option \<Rightarrow> model_input \<Rightarrow> bool" where
  "artifact_of env self t a \<longleftrightarrow>
     (t = None \<longrightarrow> a = NoInput) \<and>
     (t = Some ''model'' \<longrightarrow> (\<exists>m. a = ModelInput m)) \<and>
     (t = Some ''features'' \<longrightarrow>
        (\<exists>F p m. a = Features F \<and> get_features env (dataset self) p m (device self) = Inr F))"

text \<open>Stand-ins for the floating-point operations of PARC.\<close>

definition demo_parc_ops :: parc_ops where
  "demo_parc_ops = \<lparr>scale = (\<lambda>F. F), pca = (\<lambda>F seed k. map (take k) F),
     feature_structure = (\<lambda>F. F), label_structure = (\<lambda>l. []),
     rank_correlation = (\<lambda>xs ys. 1)\<rparr>"

section \<open>Properties of computations\<close>

text \<open>
  A computation emits only events of a kind \<open>P\<close>: whatever it returns or raises, the
  trace it leaves extends the trace it found by events satisfying \<open>P\<close>.
\<close>

definition emits_only :: "(event \<Rightarrow> bool) \<Rightarrow> ('a \<times> world, 'b) comp \<Rightarrow> bool" where
  "emits_only P m \<longleftrightarrow>
     (\<forall>s s' out. m s = (s', out) \<longrightarrow>
        (\<exists>evs. trace (snd s') = trace (snd s) @ evs \<and> (\<forall>e\<in>set evs. P e)))"

text \<open>Events that are neither persistence nor inference work nor scoring.\<close>

definition construction_event :: "event \<Rightarrow> bool" where
  "construction_event e \<longleftrightarrow> \<not> is_json_dump e \<and> \<not> is_inference_work e \<and> \<not> is_fit e"

text \<open>
  A computation persists the results \<open>k\<close> times at the end: its events split into a
  first part without a JSON dump and a last part without inference work or scoring that
  holds at most one JSON dump, and exactly \<open>k\<close> of them when the computation returns.
\<close>

definition persists_at_end :: "nat \<Rightarrow> ('a \<times> world, 'b) comp \<Rightarrow> bool" where
  "persists_at_end k m \<longleftrightarrow>
     (\<forall>s s' out. m s = (s', out) \<longrightarrow>
        (\<exists>pre post. trace (snd s') = trace (snd s) @ pre @ post
           \<and> (\<forall>e\<in>set pre. \<not> is_json_dump e)
           \<and> (\<forall>e\<in>set post. \<not> is_inference_work e \<and> \<not> is_fit e)
           \<and> length (filter is_json_dump post) \<le> 1
           \<and> ((\<exists>u. out = Returned u) \<longrightarrow> length (filter is_json_dump post) = k)))"

section \<open>A concrete environment\<close>

text \<open>
  Collaborators that always succeed, a registry with two feature-based metrics, one
  model-based metric and one metric of an inference type the experiment does not
  implement, and a configuration over them.
\<close>

definition demo_dataset :: dataset where
  "demo_dataset = [(0, 0), (1, 1), (2, 0), (3, 1)]"

definition demo_metric :: "string \<Rightarrow> string option \<Rightarrow> metric" where
  "demo_metric name t =
     \<lparr>metric_name = name, inference_type = t, dataset_dependent = True,
      fit_metric = (\<lambda>a l. Inr 1)\<rparr>"

definition demo_METRICS :: "string \<rightharpoonup> (pyval \<Rightarrow> (string \<times> pyval) list \<Rightarrow> error + metric)" where
  "demo_METRICS =
     [''parc'' \<mapsto> (\<lambda>seed kw. Inr (demo_metric ''parc'' (Some ''features''))),
      ''renggli'' \<mapsto> (\<lambda>seed kw. Inr (demo_metric ''renggli'' (Some ''features''))),
      ''n_pars'' \<mapsto> (\<lambda>seed kw. Inr (demo_metric ''n_pars'' (Some ''model''))),
      ''saliency'' \<mapsto> (\<lambda>seed kw. Inr (demo_metric ''saliency'' (Some ''image'')))]"

definition demo_env :: env where
  "demo_env = \<lparr>
     METRICS = demo_METRICS,
     set_order = remdups,
     cuda_is_available = False,
     load_dataset = (\<lambda>name image_field label_field cache_dir keep_labels.
                       Inr [PStr ''train'' \<mapsto> demo_dataset]),
     create_data_splits = (\<lambda>loaded train_split val_split test_split seed val_size test_size.
                             Inr loaded),
     drop_images = (\<lambda>ds keep_size seed stratify_by_column. Inr ds),
     get_model_without_head = (\<lambda>name cache. Inr (Model name)),
     get_processor = (\<lambda>name cache. Inr (Processor name)),
     get_features = (\<lambda>ds processor model_fn dev. Inr (map (\<lambda>(image, label). [real image]) ds)),
     to_dict = (\<lambda>config. [''model_name'' \<mapsto> PStr (config_model_name config)]),
     makedirs = (\<lambda>path. Inr ()),
     now_str = ''20240101-000000-000000'',
     time = real,
     json_dump = (\<lambda>path res. Inr ()),
     wandb_login = Inr (),
     wandb_init = (\<lambda>config_dict wandb_config. Inr ()),
     wandb_log = (\<lambda>res. Inr ()),
     wandb_finish = Inr ()\<rparr>"

definition demo_config :: config where
  "demo_config = \<lparr>
     config_model_name = ''vit'',
     config_dataset_name = ''dummy'',
     config_dataset_args =
       [''train_split'' \<mapsto> PStr ''train'', ''val_split'' \<mapsto> PNone, ''test_split'' \<mapsto> PNone,
        ''image_field'' \<mapsto> PStr ''image'', ''label_field'' \<mapsto> PStr ''label'',
        ''keep_labels'' \<mapsto> PNone, ''val_size'' \<mapsto> PNone, ''test_size'' \<mapsto> PNone],
     config_n_samples = PInt 4,
     config_metrics_samples = PInt 2,
     config_random_state = PInt 42,
     config_metrics = [''parc'', ''renggli'', ''n_pars''],
     config_metric_kwargs = Map.empty,
     config_caches = Some [''datasets'' \<mapsto> PStr ''cache/datasets'', ''models'' \<mapsto> PStr ''cache/models''],
     config_save_dir = ''results'',
     config_device = None,
     config_local_save = True,
     config_use_wandb = False,
     config_wandb_args = Map.empty,
     config_run_name = ''dummy_vit'',
     config_config_gen_dtime = None\<rparr>"

definition demo_world :: world where
  "demo_world = \<lparr>trace = [], ticks = 0, wandb_run = False\<rparr>"

text \<open>
  A train set in which a class has a single member: \<^verbatim>\<open>drop_images\<close> fails with
  the stratification error unless \<^verbatim>\<open>stratify_by_column\<close> is \<^verbatim>\<open>None\<close> or the whole
  set is kept.
\<close>

definition single_member_env :: env where
  "single_member_env = demo_env\<lparr>drop_images :=
     (\<lambda>ds keep_size seed stratify_by_column.
        if stratify_by_column = StratifyBy None then Inr (take 2 ds)
        else if keep_size = PInt 4 then Inr ds
        else Inl (ValueError (stratify_error_prefix @ '', which is too few.'')))\<rparr>"

text \<open>
  What construction on the concrete environment returns, and the same configuration
  without caches.
\<close>

definition demo_self :: model_metrics_experiment where
  "demo_self = \<lparr>
     model_name = ''vit'',
     random_state = PInt 42,
     metrics = [(''parc'', demo_metric ''parc'' (Some ''features'')),
                (''renggli'', demo_metric ''renggli'' (Some ''features'')),
                (''n_pars'', demo_metric ''n_pars'' (Some ''model''))],
     inference_types = [Some ''features'', Some ''model''],
     dataset_cache = Some (PStr ''cache/datasets''),
     model_cache = Some (PStr ''cache/models''),
     device = Device None,
     dataset_name = ''dummy'',
     dataset = demo_dataset,
     n_samples = PInt 4,
     metrics_samples = PInt 2,
     labels = [0, 1, 0, 1],
     results = \<lparr>
       config_entries = [''model_name'' \<mapsto> PStr ''vit''] |` (- {''inference_times'', ''metric_scores''}),
       inference_times = Map.empty,
       metric_scores = Map.empty\<rparr>,
     save_dir = ''results'',
     save_path = ''results/results_20240101-000000-000000.json''\<rparr>"

definition demo_world1 :: world where
  "demo_world1 = \<lparr>
     trace = [CallLoadDataset ''dummy'' (PStr ''image'') (PStr ''label'') (PStr ''cache/datasets'') PNone,
              CallCreateDataSplits,
              CallDropImages demo_dataset (PInt 4) (PInt 42) StratifyDefault,
              CallDropImages demo_dataset (PInt 2) (PInt 42) StratifyDefault,
              CallMakedirs ''results''],
     ticks = 0, wandb_run = False\<rparr>"

definition no_caches_config :: config where
  "no_caches_config = demo_config\<lparr>config_caches := None\<rparr>"

text \<open>The configuration with a metric of an inference type that is not implemented.\<close>

definition saliency_config :: config where
  "saliency_config = demo_config\<lparr>config_metrics := [''parc'', ''saliency'']\<rparr>"

text \<open>
  What is assumed of \<^verbatim>\<open>get_features\<close> where rows are compared with labels: the
  matrix it returns has one row per sample, row \<open>i\<close> computed from sample \<open>i\<close>.
\<close>

definition features_by_sample :: "env \<Rightarrow> bool" where
  "features_by_sample env \<longleftrightarrow>
     (\<forall>ds p m dev F. get_features env ds p m dev = Inr F \<longrightarrow> (\<exists>embed. F = map embed ds))"

text \<open>The concrete configuration with local saving switched off.\<close>

definition nosave_config :: config where
  "nosave_config = demo_config\<lparr>config_local_save := False\<rparr>"

section \<open>Pairwise structure\<close>

lemma length_concat_upper:
  "length (concat (map (\<lambda>i. map (f i) [Suc i..<n]) [0..<m])) = (\<Sum>i<m. n - Suc i)"
  by (induction m) (simp_all add: length_concat)

lemma sum_upper_count: "m \<le> n \<Longrightarrow> 2 * (\<Sum>i<m. n - Suc i) + m * (m + 1) = 2 * m * n"
proof (induction m)
  case 0
  then show ?case by simp
next
  case (Suc m)
  then obtain d where n: "n = Suc m + d"
    using le_Suc_ex by blast
  from Suc have "2 * (\<Sum>i<m. n - Suc i) + m * (m + 1) = 2 * m * n"
    by simp
  then show ?case
    by (simp add: n algebra_simps)
qed

lemma length_lower_tri_arr:
  assumes "length arr = n"
  shows "2 * length (lower_tri_arr arr) = n * (n - 1)"
proof -
  have "2 * (\<Sum>i<n. n - Suc i) + n * (n + 1) = 2 * n * n"
    by (rule sum_upper_count) simp
  moreover have "n * (n - 1) + n * (n + 1) = 2 * n * n"
    by (cases n) (simp_all add: algebra_simps)
  ultimately have "2 * (\<Sum>i<n. n - Suc i) = n * (n - 1)"
    by linarith
  then show ?thesis
    using assms by (simp add: lower_tri_arr_def length_concat_upper)
qed

lemma sum_test_arr_5: "real_of_int (sum_list (lower_tri_arr (test_arr 5))) = 90"
proof -
  have "[0..<5] = [0, 1, 2, 3, 4::nat]"
    by (simp add: upt_rec)
  then show ?thesis
    by (simp add: lower_tri_arr_def test_arr_def upt_rec)
qed

lemma analytical_sum_5: "analytical_sum 5 = 90"
proof -
  have "[1..<6] = [1, 2, 3, 4, 5::nat]"
    by (simp add: upt_rec)
  then show ?thesis
    by (simp add: analytical_sum_def)
qed

text \<open>
  C4. For every square matrix of size n, \<open>lower_tri_arr\<close> returns the entries at the
  positions \<open>(i, j)\<close> with \<open>i < j\<close>, row by row, which are \<open>n (n - 1) / 2\<close> values; the
  result is a function of the matrix alone. For the 5 by 5 matrix filled 1..25 row-major
  the extracted values sum to the closed-form value of \<^verbatim>\<open>test_lower_tri\<close>.
\<close>

theorem lower_tri_arr_count_and_sum:
  "(square n arr \<longrightarrow>
      2 * length (lower_tri_arr arr) = n * (n - 1)
      \<and> lower_tri_arr arr = concat (map (\<lambda>i. map (\<lambda>j. arr ! i ! j) [Suc i..<n]) [0..<n]))
   \<and> real_of_int (sum_list (lower_tri_arr (test_arr 5))) = analytical_sum 5"
proof -
  have "2 * length (lower_tri_arr arr) = n * (n - 1)" if "square n arr"
    using that length_lower_tri_arr [of arr n] by (simp add: square_def)
  moreover have "lower_tri_arr arr =
      concat (map (\<lambda>i. map (\<lambda>j. arr ! i ! j) [Suc i..<n]) [0..<n])" if "square n arr"
    using that by (simp add: square_def lower_tri_arr_def)
  ultimately show ?thesis
    by (simp add: sum_test_arr_5 analytical_sum_5)
qed

theorem lower_tri_arr_count_and_sum_witness:
  "square 5 (test_arr 5)
   \<and> length (lower_tri_arr (test_arr 5)) = 10
   \<and> lower_tri_arr (test_arr 5) = [2, 3, 4, 5, 8, 9, 10, 14, 15, 20]"
proof -
  have u: "[0..<5] = [0, 1, 2, 3, 4::nat]"
    by (simp add: upt_rec)
  have sq: "square 5 (test_arr 5)"
    by (simp add: square_def test_arr_def u)
  have "lower_tri_arr (test_arr 5) = [2, 3, 4, 5, 8, 9, 10, 14, 15, 20]"
    by (simp add: lower_tri_arr_def test_arr_def u upt_rec)
  moreover have "2 * length (lower_tri_arr (test_arr 5)) = 5 * (5 - 1)"
    using lower_tri_arr_count_and_sum [of 5 "test_arr 5"] sq by blast
  ultimately show ?thesis
    using sq by simp
qed

section \<open>Rules for computations\<close>


lemma and_then_returns [simp]: "and_then (returns x) f = f x"
  by (simp add: and_then_def returns_def)

lemma and_then_raises [simp]: "and_then (raises e) f = raises e"
  by (simp add: and_then_def raises_def)

lemma returns_apply [simp]: "returns x s = (s, Returned x)"
  by (simp add: returns_def)

lemma raises_apply [simp]: "raises e s = (s, Raised e)"
  by (simp add: raises_def)

lemma and_then_apply:
  "and_then m f s = (case m s of (s', Raised e) \<Rightarrow> (s', Raised e) | (s', Returned x) \<Rightarrow> f x s')"
  by (simp add: and_then_def)

lemma and_then_cases:
  assumes "and_then m f s = (s'', out)"
  obtains (raised) s' e where "m s = (s', Raised e)" "s'' = s'" "out = Raised e"
        | (returned) s' x where "m s = (s', Returned x)" "f x s' = (s'', out)"
  using assms by (auto simp: and_then_def split: prod.splits outcome.splits)

lemma of_result_apply [simp]:
  "of_result (Inl e) s = (s, Raised e)" "of_result (Inr x) s = (s, Returned x)"
  by (simp_all add: of_result_def)

lemma emit_apply [simp]: "emit e (self, w) = ((self, w\<lparr>trace := trace w @ [e]\<rparr>), Returned ())"
  by (simp add: emit_def)

lemma call_apply [simp]:
  "call e r (self, w) = ((self, w\<lparr>trace := trace w @ [e]\<rparr>), case r of Inl x \<Rightarrow> Raised x | Inr v \<Rightarrow> Returned v)"
  by (cases r) (simp_all add: call_def and_then_def)

lemma time_now_apply [simp]:
  "time_now env (self, w) = ((self, w\<lparr>ticks := Suc (ticks w)\<rparr>), Returned (time env (ticks w)))"
  by (simp add: time_now_def)

lemma get_self_apply [simp]: "get_self (self, w) = ((self, w), Returned self)"
  by (simp add: get_self_def)

lemma modify_self_apply [simp]: "modify_self f (self, w) = ((f self, w), Returned ())"
  by (simp add: modify_self_def)

lemma getattr_apply [simp]:
  "getattr name a s = (s, case a of None \<Rightarrow> Raised (AttributeError name) | Some v \<Rightarrow> Returned v)"
  by (simp add: getattr_def split: option.splits)

lemma getitem_apply:
  "getitem d k s = (s, case d k of None \<Rightarrow> Raised (KeyError (PStr k)) | Some v \<Rightarrow> Returned v)"
  by (simp add: getitem_def split: option.splits)

subsection \<open>Construction\<close>

lemma make_metrics_state: "fst (make_metrics env config names acc s) = s"
  by (induction names arbitrary: acc)
     (auto simp: and_then_apply getitem_apply of_result_def split: option.splits sum.splits prod.splits outcome.splits)

lemma make_metrics_cases:
  obtains (raised) e where "make_metrics env config names acc s = (s, Raised e)"
        | (returned) ms where "make_metrics env config names acc s = (s, Returned ms)"
  using make_metrics_state [of env config names acc s]
  by (cases "make_metrics env config names acc s"; cases "snd (make_metrics env config names acc s)") auto

lemma init_caches_None:
  assumes "config_caches config = None"
  shows "fst (init env config s) = s" and "\<exists>e. snd (init env config s) = Raised e"
    and "make_metrics env config (config_metrics config) [] s = (s, Returned ms) \<Longrightarrow>
         config_dataset_args config ''image_field'' \<noteq> None \<Longrightarrow>
         config_dataset_args config ''label_field'' \<noteq> None \<Longrightarrow>
         snd (init env config s) = Raised (AttributeError ''dataset_cache'')"
  using assms
  by (cases rule: make_metrics_cases [of env config "config_metrics config" "[]" s];
      auto simp: init_def and_then_apply getitem_apply split: option.splits)+

lemma init_Returned:
  assumes "init env config (x, w) = ((x', w'), Returned self)"
  shows "\<exists>caches d m ms ds.
           config_caches config = Some caches \<and> caches ''datasets'' = Some d \<and> caches ''models'' = Some m
           \<and> make_metrics env config (config_metrics config) [] (x, w) = ((x, w), Returned ms)
           \<and> dataset_cache self = Some d \<and> model_cache self = Some m
           \<and> metrics self = ms
           \<and> inference_types self = set_order env (map (\<lambda>(name, obj). inference_type obj) ms)
           \<and> dataset self = ds \<and> labels self = map snd ds
           \<and> results self = \<lparr>config_entries = to_dict env config |` (- {''inference_times'', ''metric_scores''}),
                 inference_times = Map.empty, metric_scores = Map.empty\<rparr>
           \<and> save_path self = config_save_dir config @ ''/results_'' @ now_str env @ ''.json''"
  using assms
  apply (cases rule: make_metrics_cases [of env config "config_metrics config" "[]" "(x, w)"])
   apply (simp add: init_def and_then_apply)
  apply (auto simp: init_def and_then_apply getitem_apply split: option.splits sum.splits prod.splits outcome.splits)
  done

subsection \<open>Inference and scoring\<close>

lemma features_inference_effect:
  assumes "features_inference env (self, w) = ((self', w'), out)"
  shows "self' = self \<and> (\<exists>evs. trace w' = trace w @ CallFeaturesInference # evs
           \<and> CallFeaturesInference \<notin> set evs \<and> CallModelInference \<notin> set evs
           \<and> (\<forall>e\<in>set evs. is_inference_work e)
           \<and> (\<forall>F. out = Returned F \<longrightarrow> (\<exists>p m. get_features env (dataset self) p m (device self) = Inr F
                   \<and> CallGetFeatures (dataset self) p m (device self) \<in> set evs)))"
  using assms
  by (auto simp: features_inference_def and_then_apply split: option.splits sum.splits)

lemma model_inference_effect:
  assumes "model_inference env (self, w) = ((self', w'), out)"
  shows "self' = self \<and> (\<exists>evs. trace w' = trace w @ CallModelInference # evs
           \<and> CallFeaturesInference \<notin> set evs \<and> CallModelInference \<notin> set evs
           \<and> (\<forall>e\<in>set evs. is_inference_work e))"
  using assms
  by (auto simp: model_inference_def and_then_apply split: option.splits sum.splits)

lemma perform_inference_effect:
  assumes "perform_inference env t (self, w) = ((self', w'), out)"
  shows "self' = self \<and> (\<exists>evs. trace w' = trace w @ CallPerformInference t # evs
           \<and> (\<forall>e\<in>set evs. is_inference_work e)
           \<and> count_list evs CallFeaturesInference = (if t = Some ''features'' then 1 else 0)
           \<and> count_list evs CallModelInference = (if t = Some ''model'' then 1 else 0)
           \<and> (\<not> supported t \<longrightarrow> evs = [] \<and> out = Raised (NotImplementedError (not_implemented_message (the t))))
           \<and> (\<forall>a \<tau>. out = Returned (a, \<tau>) \<longrightarrow> supported t
                 \<and> (t = None \<longrightarrow> a = NoInput)
                 \<and> (t = Some ''model'' \<longrightarrow> (\<exists>m. a = ModelInput m))
                 \<and> (t = Some ''features'' \<longrightarrow> (\<exists>F p m. a = Features F
                       \<and> get_features env (dataset self) p m (device self) = Inr F
                       \<and> CallGetFeatures (dataset self) p m (device self) \<in> set evs))))"
proof -
  consider (f) "t = Some ''features''" | (m) "t = Some ''model''" | (n) "t = None"
    | (u) other where "t = Some other" "other \<noteq> ''features''" "other \<noteq> ''model''"
    by (cases t) auto
  then show ?thesis
  proof cases
    case f
    obtain s1 o1 where fi: "features_inference env (self, w\<lparr>trace := trace w @ [CallPerformInference t], ticks := Suc (ticks w)\<rparr>) = (s1, o1)"
      by (cases "features_inference env (self, w\<lparr>trace := trace w @ [CallPerformInference t], ticks := Suc (ticks w)\<rparr>)")
    obtain self1 w1 where s1: "s1 = (self1, w1)" by (cases s1)
    from features_inference_effect [OF fi [unfolded s1]] assms f fi s1
    show ?thesis
      by (cases o1) (auto simp: perform_inference_def and_then_apply supported_def count_list_0_iff; blast?)+
  next
    case m
    obtain s1 o1 where fi: "model_inference env (self, w\<lparr>trace := trace w @ [CallPerformInference t], ticks := Suc (ticks w)\<rparr>) = (s1, o1)"
      by (cases "model_inference env (self, w\<lparr>trace := trace w @ [CallPerformInference t], ticks := Suc (ticks w)\<rparr>)")
    obtain self1 w1 where s1: "s1 = (self1, w1)" by (cases s1)
    from model_inference_effect [OF fi [unfolded s1]] assms m fi s1
    show ?thesis
      by (cases o1) (auto simp: perform_inference_def and_then_apply supported_def count_list_0_iff)
  next
    case n
    with assms show ?thesis
      by (auto simp: perform_inference_def and_then_apply supported_def)
  next
    case u
    with assms show ?thesis
      by (auto simp: perform_inference_def and_then_apply supported_def)
  qed
qed

lemma set_metric_entry_simps [simp]:
  "metrics (set_metric_entry n e self) = metrics self"
  "labels (set_metric_entry n e self) = labels self"
  "dataset (set_metric_entry n e self) = dataset self"
  "device (set_metric_entry n e self) = device self"
  "inference_types (set_metric_entry n e self) = inference_types self"
  "save_path (set_metric_entry n e self) = save_path self"
  "config_entries (results (set_metric_entry n e self)) = config_entries (results self)"
  "inference_times (results (set_metric_entry n e self)) = inference_times (results self)"
  "metric_scores (results (set_metric_entry n e self)) = (metric_scores (results self))(n \<mapsto> e)"
  "set_metric_entry n e' (set_metric_entry n e self) = set_metric_entry n e' self"
  by (simp_all add: set_metric_entry_def)

lemma set_inference_time_simps [simp]:
  "metrics (set_inference_time t x self) = metrics self"
  "labels (set_inference_time t x self) = labels self"
  "dataset (set_inference_time t x self) = dataset self"
  "device (set_inference_time t x self) = device self"
  "inference_types (set_inference_time t x self) = inference_types self"
  "save_path (set_inference_time t x self) = save_path self"
  "config_entries (results (set_inference_time t x self)) = config_entries (results self)"
  "inference_times (results (set_inference_time t x self)) = (inference_times (results self))(t \<mapsto> x)"
  "metric_scores (results (set_inference_time t x self)) = metric_scores (results self)"
  "test_metrics (set_inference_time t x self) t' = test_metrics self t'"
  by (simp_all add: set_inference_time_def test_metrics_def)

lemma test_metrics_set_metric_entry [simp]:
  "test_metrics (set_metric_entry n e self) t = test_metrics self t"
  by (simp add: test_metrics_def)

lemma score_metrics_Cons:
  "score_metrics env a (n # rest) (self, w) =
     (case map_of (metrics self) n of
        None \<Rightarrow> ((set_metric_entry n Map.empty self, w), Raised (KeyError (PStr n)))
      | Some m \<Rightarrow>
          (case fit_metric m a (labels self) of
             Inl e \<Rightarrow>
               ((set_metric_entry n Map.empty self,
                 w\<lparr>trace := trace w @ [CallFitMetric (metric_name m) (inference_type m) a (labels self)],
                   ticks := Suc (ticks w)\<rparr>),
                Raised e)
           | Inr sc \<Rightarrow>
               score_metrics env a rest
                 (set_metric_entry n [''score'' \<mapsto> sc, ''time'' \<mapsto> time env (Suc (ticks w)) - time env (ticks w)] self,
                  w\<lparr>trace := trace w @ [CallFitMetric (metric_name m) (inference_type m) a (labels self)],
                    ticks := Suc (Suc (ticks w))\<rparr>)))"
  by (simp add: and_then_apply compute_metric_score_def set_metric_field_def getitem_apply
           split: option.splits sum.splits)

lemma run_inference_types_Cons:
  "run_inference_types env (t # rest) (self, w) =
     (case perform_inference env t (self, w) of
        (s1, Raised e) \<Rightarrow> (s1, Raised e)
      | ((self1, w1), Returned (a, \<tau>)) \<Rightarrow>
          (case score_metrics env a (test_metrics self1 t) (set_inference_time t \<tau> self1, w1) of
             (s2, Raised e) \<Rightarrow> (s2, Raised e)
           | (s2, Returned u) \<Rightarrow> run_inference_types env rest s2))"
  by (simp add: and_then_apply split: prod.splits outcome.splits)

declare score_metrics.simps(2) [simp del] run_inference_types.simps(2) [simp del]

lemma score_metrics_effect:
  "score_metrics env a names (self, w) = ((self', w'), out) \<Longrightarrow>
     self' = self\<lparr>results := results self'\<rparr> \<and>
     config_entries (results self') = config_entries (results self) \<and>
     inference_times (results self') = inference_times (results self) \<and>
     (\<forall>n. n \<notin> set names \<longrightarrow> metric_scores (results self') n = metric_scores (results self) n) \<and>
     (\<exists>evs. trace w' = trace w @ evs \<and>
        (\<forall>e\<in>set evs. \<exists>n\<in>set names. \<exists>m. map_of (metrics self) n = Some m \<and> e = fit_event self a m) \<and>
        (out = Returned () \<longrightarrow> length evs = length names \<and>
           (\<forall>n\<in>set names. \<exists>m sc tm. map_of (metrics self) n = Some m
              \<and> fit_metric m a (labels self) = Inr sc
              \<and> fit_event self a m \<in> set evs
              \<and> metric_scores (results self') n = Some [''score'' \<mapsto> sc, ''time'' \<mapsto> tm])))"
proof (induction names arbitrary: self w)
  case Nil
  then show ?case by auto
next
  case (Cons n rest)
  show ?case
  proof (cases "map_of (metrics self) n")
    case None
    with Cons.prems show ?thesis
      by (auto simp: score_metrics_Cons set_metric_entry_def)
  next
    case (Some m)
    show ?thesis
    proof (cases "fit_metric m a (labels self)")
      case (Inl e)
      with Some Cons.prems show ?thesis
        by (auto simp: score_metrics_Cons set_metric_entry_def fit_event_def)
    next
      case (Inr sc)
      define self2 where "self2 = set_metric_entry n [''score'' \<mapsto> sc, ''time'' \<mapsto> time env (Suc (ticks w)) - time env (ticks w)] self"
      define w2 where "w2 = w\<lparr>trace := trace w @ [fit_event self a m], ticks := Suc (Suc (ticks w))\<rparr>"
      from Cons.prems Some Inr have run: "score_metrics env a rest (self2, w2) = ((self', w'), out)"
        by (simp add: score_metrics_Cons self2_def w2_def fit_event_def)
      note IH = Cons.IH [OF run]
      have s2: "metrics self2 = metrics self" "labels self2 = labels self"
        "config_entries (results self2) = config_entries (results self)"
        "inference_times (results self2) = inference_times (results self)"
        "metric_scores (results self2) = (metric_scores (results self))(n \<mapsto> [''score'' \<mapsto> sc, ''time'' \<mapsto> time env (Suc (ticks w)) - time env (ticks w)])"
        "\<And>r. self2\<lparr>results := r\<rparr> = self\<lparr>results := r\<rparr>"
        by (simp_all add: self2_def set_metric_entry_def)
      have fe: "fit_event self2 a = fit_event self a"
        by (simp add: fit_event_def fun_eq_iff s2)
      from IH obtain evs where evs: "trace w' = trace w2 @ evs"
        "\<forall>e\<in>set evs. \<exists>n\<in>set rest. \<exists>m. map_of (metrics self) n = Some m \<and> e = fit_event self a m"
        "out = Returned () \<longrightarrow> length evs = length rest \<and>
           (\<forall>n\<in>set rest. \<exists>m sc tm. map_of (metrics self) n = Some m
              \<and> fit_metric m a (labels self) = Inr sc
              \<and> fit_event self a m \<in> set evs
              \<and> metric_scores (results self') n = Some [''score'' \<mapsto> sc, ''time'' \<mapsto> tm])"
        unfolding s2 fe by blast
      have frame: "self' = self\<lparr>results := results self'\<rparr>"
        using IH s2(6) by metis
      have res: "config_entries (results self') = config_entries (results self)"
        "inference_times (results self') = inference_times (results self)"
        "\<forall>k. k \<notin> set (n # rest) \<longrightarrow> metric_scores (results self') k = metric_scores (results self) k"
        using IH by (auto simp: s2)
      have head: "n \<notin> set rest \<longrightarrow> metric_scores (results self') n
          = Some [''score'' \<mapsto> sc, ''time'' \<mapsto> time env (Suc (ticks w)) - time env (ticks w)]"
        using IH by (simp add: s2)
      have tr: "trace w' = trace w @ (fit_event self a m # evs)"
        using evs(1) by (simp add: w2_def)
      have all: "\<forall>e\<in>set (fit_event self a m # evs). \<exists>k\<in>set (n # rest). \<exists>m. map_of (metrics self) k = Some m \<and> e = fit_event self a m"
        using evs(2) Some by auto
      have compl: "out = Returned () \<longrightarrow> length (fit_event self a m # evs) = length (n # rest) \<and>
           (\<forall>k\<in>set (n # rest). \<exists>m' sc tm. map_of (metrics self) k = Some m'
              \<and> fit_metric m' a (labels self) = Inr sc
              \<and> fit_event self a m' \<in> set (fit_event self a m # evs)
              \<and> metric_scores (results self') k = Some [''score'' \<mapsto> sc, ''time'' \<mapsto> tm])"
      proof (intro impI conjI ballI)
        assume r: "out = Returned ()"
        then show "length (fit_event self a m # evs) = length (n # rest)"
          using evs(3) by simp
        fix k assume k: "k \<in> set (n # rest)"
        show "\<exists>m' sc tm. map_of (metrics self) k = Some m'
              \<and> fit_metric m' a (labels self) = Inr sc
              \<and> fit_event self a m' \<in> set (fit_event self a m # evs)
              \<and> metric_scores (results self') k = Some [''score'' \<mapsto> sc, ''time'' \<mapsto> tm]"
        proof (cases "k \<in> set rest")
          case True
          with evs(3) r show ?thesis by fastforce
        next
          case False
          with k have "k = n" by simp
          with False head Some Inr show ?thesis by auto
        qed
      qed
      from frame res tr all compl show ?thesis
        by blast
    qed
  qed
qed

subsection \<open>The loop over the inference types\<close>

lemma run_inference_types_Cons_cases:
  assumes "run_inference_types env (t # rest) (self, w) = ((self', w'), out)"
  obtains
    (pass_raised) e where
      "perform_inference env t (self, w) = ((self', w'), Raised e)" "out = Raised e"
  | (score_raised) a \<tau> w1 e where
      "perform_inference env t (self, w) = ((self, w1), Returned (a, \<tau>))"
      "score_metrics env a (test_metrics self t) (set_inference_time t \<tau> self, w1) = ((self', w'), Raised e)"
      "out = Raised e"
  | (continued) a \<tau> w1 self2 w2 where
      "perform_inference env t (self, w) = ((self, w1), Returned (a, \<tau>))"
      "score_metrics env a (test_metrics self t) (set_inference_time t \<tau> self, w1) = ((self2, w2), Returned ())"
      "run_inference_types env rest (self2, w2) = ((self', w'), out)"
proof -
  obtain self1 w1 o1 where p: "perform_inference env t (self, w) = ((self1, w1), o1)"
    by (metis surj_pair)
  from perform_inference_effect [OF p] have s1: "self1 = self" by simp
  show ?thesis
  proof (cases o1)
    case (Raised e)
    with assms p show ?thesis
      by (intro pass_raised [of e]) (auto simp: run_inference_types_Cons)
  next
    case (Returned r)
    obtain a \<tau> where r: "r = (a, \<tau>)" by (cases r)
    obtain self2 w2 o2 where sc:
      "score_metrics env a (test_metrics self t) (set_inference_time t \<tau> self, w1) = ((self2, w2), o2)"
      by (metis surj_pair)
    show ?thesis
    proof (cases o2)
      case (Raised e)
      with assms p s1 Returned r sc show ?thesis
        by (intro score_raised [of w1 a \<tau> e]) (auto simp: run_inference_types_Cons)
    next
      case R2: (Returned u)
      with assms p s1 Returned r sc show ?thesis
        by (intro continued [of w1 a \<tau> self2 w2]) (auto simp: run_inference_types_Cons)
    qed
  qed
qed

lemma inference_work_kind:
  "is_inference_work e \<Longrightarrow> \<not> is_json_dump e \<and> \<not> is_fit e \<and> e \<noteq> CallPerformInference t"
  by (cases e) auto

lemma fit_event_kind [simp]:
  "\<not> is_json_dump (fit_event self a m)" "\<not> is_inference_work (fit_event self a m)"
  "is_fit (fit_event self a m)" "fit_event self a m \<noteq> CallPerformInference t"
  "fit_event self a m \<noteq> CallFeaturesInference" "fit_event self a m \<noteq> CallModelInference"
  by (simp_all add: fit_event_def)

lemma new_events_append: "trace w' = trace w @ evs \<Longrightarrow> new_events w w' = evs"
  by (simp add: new_events_def)

lemma new_events_trans:
  assumes "trace w1 = trace w @ new_events w w1" "trace w2 = trace w1 @ new_events w1 w2"
  shows "trace w2 = trace w @ new_events w w2"
    and "new_events w w2 = new_events w w1 @ new_events w1 w2"
proof -
  have "trace w2 = trace w @ (new_events w w1 @ new_events w1 w2)"
    using assms by (metis append.assoc)
  then show "new_events w w2 = new_events w w1 @ new_events w1 w2"
    by (rule new_events_append)
  then show "trace w2 = trace w @ new_events w w2"
    using assms by (metis append.assoc)
qed

lemma perform_inference_block:
  assumes "perform_inference env t (self, w) = ((self', w'), out)"
  shows "trace w' = trace w @ new_events w w'"
    and "count_list (new_events w w') (CallPerformInference t') = (if t' = t then 1 else 0)"
    and "count_list (new_events w w') CallFeaturesInference = (if t = Some ''features'' then 1 else 0)"
    and "count_list (new_events w w') CallModelInference = (if t = Some ''model'' then 1 else 0)"
    and "\<forall>e\<in>set (new_events w w'). \<not> is_json_dump e \<and> \<not> is_fit e"
proof -
  from perform_inference_effect [OF assms] obtain evs where evs:
    "trace w' = trace w @ CallPerformInference t # evs" "\<forall>e\<in>set evs. is_inference_work e"
    "count_list evs CallFeaturesInference = (if t = Some ''features'' then 1 else 0)"
    "count_list evs CallModelInference = (if t = Some ''model'' then 1 else 0)"
    by blast
  have ne: "new_events w w' = CallPerformInference t # evs"
    using evs(1) by (rule new_events_append)
  have "CallPerformInference x \<notin> set evs" for x
    using evs(2) inference_work_kind by blast
  then have c0: "count_list evs (CallPerformInference x) = 0" for x
    by (simp add: count_list_0_iff)
  show "trace w' = trace w @ new_events w w'"
    using evs(1) ne by simp
  show "count_list (new_events w w') (CallPerformInference t') = (if t' = t then 1 else 0)"
    by (simp add: ne c0)
  show "count_list (new_events w w') CallFeaturesInference = (if t = Some ''features'' then 1 else 0)"
    using evs(3) by (simp add: ne)
  show "count_list (new_events w w') CallModelInference = (if t = Some ''model'' then 1 else 0)"
    using evs(4) by (simp add: ne)
  show "\<forall>e\<in>set (new_events w w'). \<not> is_json_dump e \<and> \<not> is_fit e"
    using evs(2) inference_work_kind by (auto simp: ne)
qed

lemma score_metrics_block:
  assumes "score_metrics env a names (self, w) = ((self', w'), out)"
  shows "trace w' = trace w @ new_events w w'"
    and "count_list (new_events w w') (CallPerformInference t') = 0"
    and "count_list (new_events w w') CallFeaturesInference = 0"
    and "count_list (new_events w w') CallModelInference = 0"
    and "\<forall>e\<in>set (new_events w w'). \<not> is_json_dump e \<and> is_fit e"
proof -
  from score_metrics_effect [OF assms] obtain evs where evs:
    "trace w' = trace w @ evs"
    "\<forall>e\<in>set evs. \<exists>n\<in>set names. \<exists>m. map_of (metrics self) n = Some m \<and> e = fit_event self a m"
    by blast
  have ne: "new_events w w' = evs"
    using evs(1) by (rule new_events_append)
  have fits: "\<forall>e\<in>set evs. \<exists>m. e = fit_event self a m"
    using evs(2) by blast
  show "trace w' = trace w @ new_events w w'"
    using evs(1) ne by simp
  have "CallPerformInference t' \<notin> set evs" "CallFeaturesInference \<notin> set evs"
    "CallModelInference \<notin> set evs"
    using fits by (auto simp: fit_event_def)
  then show "count_list (new_events w w') (CallPerformInference t') = 0"
    "count_list (new_events w w') CallFeaturesInference = 0"
    "count_list (new_events w w') CallModelInference = 0"
    by (simp_all add: ne count_list_0_iff)
  show "\<forall>e\<in>set (new_events w w'). \<not> is_json_dump e \<and> is_fit e"
    using fits by (auto simp: ne)
qed

lemma run_inference_types_counts:
  assumes "run_inference_types env ts (self, w) = ((self', w'), out)"
  shows "trace w' = trace w @ new_events w w' \<and>
        (\<forall>t. count_list (new_events w w') (CallPerformInference t) \<le> count_list ts t) \<and>
        ((\<exists>u. out = Returned u) \<longrightarrow>
           (\<forall>t. count_list (new_events w w') (CallPerformInference t) = count_list ts t)) \<and>
        count_list (new_events w w') CallFeaturesInference
          = count_list (new_events w w') (CallPerformInference (Some ''features'')) \<and>
        count_list (new_events w w') CallModelInference
          = count_list (new_events w w') (CallPerformInference (Some ''model'')) \<and>
        (\<forall>e\<in>set (new_events w w'). \<not> is_json_dump e)"
  using assms
proof (induction ts arbitrary: self w)
  case Nil
  then show ?case by (simp add: new_events_def)
next
  case (Cons t rest)
  from Cons.prems show ?case
  proof (cases rule: run_inference_types_Cons_cases)
    case (pass_raised e)
    note b1 = perform_inference_block [OF pass_raised(1)]
    show ?thesis
      using b1(1) b1(5) pass_raised(2) by (simp add: b1(2-4))
  next
    case (score_raised a \<tau> w1 e)
    note b1 = perform_inference_block [OF score_raised(1)]
    note b2 = score_metrics_block [OF score_raised(2)]
    note tr = new_events_trans [OF b1(1) b2(1)]
    show ?thesis
      using tr(1) b1(5) b2(5) score_raised(3)
      by (simp add: tr(2) b1(2-4) b2(2-4) ball_Un)
  next
    case (continued a \<tau> w1 self2 w2)
    note b1 = perform_inference_block [OF continued(1)]
    note b2 = score_metrics_block [OF continued(2)]
    note IH = Cons.IH [OF continued(3)]
    note tr = new_events_trans [OF b1(1) b2(1)]
    from IH have i1: "trace w' = trace w2 @ new_events w2 w'" by blast
    note tr2 = new_events_trans [OF tr(1) i1]
    show ?thesis
      using tr2(1) b1(5) b2(5) IH
      by (simp add: tr2(2) tr(2) b1(2-4) b2(2-4) ball_Un)
  qed
qed



lemma dict_set_keys: "fst ` set (dict_set d k v) = insert k (fst ` set d)"
  by (induction d k v rule: dict_set.induct) auto

lemma dict_set_distinct: "distinct (map fst d) \<Longrightarrow> distinct (map fst (dict_set d k v))"
  by (induction d k v rule: dict_set.induct) (auto simp: dict_set_keys)

lemma make_metrics_keys:
  "make_metrics env config names acc s = (s', Returned ms) \<Longrightarrow> distinct (map fst acc) \<Longrightarrow>
     distinct (map fst ms) \<and> fst ` set ms = fst ` set acc \<union> set names"
proof (induction names arbitrary: acc)
  case Nil
  then show ?case by simp
next
  case (Cons n rest)
  from Cons.prems(1) obtain c obj where
    "METRICS env n = Some c"
    "make_metrics env config rest (dict_set acc n obj) s = (s', Returned ms)"
    by (auto simp: and_then_apply getitem_apply of_result_def split: option.splits sum.splits)
  from Cons.IH [OF this(2) dict_set_distinct [OF Cons.prems(2)]]
  show ?case
    by (auto simp: dict_set_keys)
qed

lemma unsupported_never_returns:
  assumes "run_inference_types env ts (self, w) = ((self', w'), out)"
    and "t \<in> set ts" and "\<not> supported t"
  shows "\<exists>e. out = Raised e"
  using assms
proof (induction ts arbitrary: self w)
  case Nil
  then show ?case by simp
next
  case (Cons t0 rest)
  from Cons.prems(1) show ?case
  proof (cases rule: run_inference_types_Cons_cases)
    case (pass_raised e)
    then show ?thesis by blast
  next
    case (score_raised a \<tau> w1 e)
    then show ?thesis by blast
  next
    case (continued a \<tau> w1 self2 w2)
    from perform_inference_effect [OF continued(1)] have "supported t0"
      by blast
    with Cons.prems have "t \<in> set rest" by auto
    from Cons.IH [OF continued(3) this Cons.prems(3)] show ?thesis .
  qed
qed

lemma frame_fields:
  assumes "self' = self\<lparr>results := r\<rparr>"
  shows "metrics self' = metrics self" "labels self' = labels self"
    "dataset self' = dataset self" "device self' = device self"
    "inference_types self' = inference_types self" "save_path self' = save_path self"
    "test_metrics self' t = test_metrics self t" "fit_event self' = fit_event self"
  by (simp_all add: assms test_metrics_def fit_event_def fun_eq_iff)

lemma test_metrics_iff:
  assumes "distinct (map fst (metrics self))"
  shows "k \<in> set (test_metrics self t) \<longleftrightarrow>
           (\<exists>m. map_of (metrics self) k = Some m \<and> inference_type m = t)"
  using assms by (force simp: test_metrics_def)

lemma run_inference_types_fits:
  assumes "run_inference_types env ts (self, w) = ((self', w'), out)"
    and "distinct (map fst (metrics self))" and "distinct ts"
  shows "\<exists>art. \<forall>e\<in>set (new_events w w'). is_fit e \<longrightarrow>
            (\<exists>k m. map_of (metrics self) k = Some m \<and> inference_type m \<in> set ts
               \<and> e = fit_event self (art (inference_type m)) m
               \<and> artifact_of env self (inference_type m) (art (inference_type m)))"
  using assms
proof (induction ts arbitrary: self w)
  case Nil
  then show ?case by (simp add: new_events_def)
next
  case (Cons t rest)
  from Cons.prems(1) show ?case
  proof (cases rule: run_inference_types_Cons_cases)
    case (pass_raised e)
    from perform_inference_block(5) [OF pass_raised(1)] show ?thesis
      by blast
  next
    case (score_raised a \<tau> w1 e)
    note b1 = perform_inference_block [OF score_raised(1)]
    note b2 = score_metrics_block [OF score_raised(2)]
    note tr = new_events_trans [OF b1(1) b2(1)]
    from perform_inference_effect [OF score_raised(1)] have art: "artifact_of env self t a"
      by (auto simp: artifact_of_def)
    from score_metrics_effect [OF score_raised(2)] b2(1)
    have ev: "\<forall>e\<in>set (new_events w1 w'). \<exists>n\<in>set (test_metrics self t). \<exists>m.
        map_of (metrics self) n = Some m \<and> e = fit_event self a m"
      by (auto simp: fit_event_def dest!: new_events_append)
    define A where "A = (\<lambda>_::string option. a)"
    have "\<forall>e\<in>set (new_events w w'). is_fit e \<longrightarrow>
            (\<exists>k m. map_of (metrics self) k = Some m \<and> inference_type m \<in> set (t # rest)
               \<and> e = fit_event self (A (inference_type m)) m
               \<and> artifact_of env self (inference_type m) (A (inference_type m)))"
      using b1(5) ev art test_metrics_iff [OF Cons.prems(2)]
      by (fastforce simp: tr(2) A_def)
    then show ?thesis by blast
  next
    case (continued a \<tau> w1 self2 w2)
    note b1 = perform_inference_block [OF continued(1)]
    note b2 = score_metrics_block [OF continued(2)]
    note tr = new_events_trans [OF b1(1) b2(1)]
    from perform_inference_effect [OF continued(1)] have art: "artifact_of env self t a"
      by (auto simp: artifact_of_def)
    from score_metrics_effect [OF continued(2)] b2(1)
    have ev: "\<forall>e\<in>set (new_events w1 w2). \<exists>n\<in>set (test_metrics self t). \<exists>m.
        map_of (metrics self) n = Some m \<and> e = fit_event self a m"
      by (auto simp: fit_event_def dest!: new_events_append)
    from score_metrics_effect [OF continued(2)]
    have "self2 = (set_inference_time t \<tau> self)\<lparr>results := results self2\<rparr>"
      by blast
    then have fr: "self2 = self\<lparr>results := results self2\<rparr>"
      by (simp add: set_inference_time_def)
    note ff = frame_fields [OF fr]
    have "distinct (map fst (metrics self2))" "distinct rest" "t \<notin> set rest"
      using Cons.prems ff(1) by auto
    from Cons.IH [OF continued(3) this(1,2)] obtain art' where art':
      "\<forall>e\<in>set (new_events w2 w'). is_fit e \<longrightarrow>
            (\<exists>k m. map_of (metrics self) k = Some m \<and> inference_type m \<in> set rest
               \<and> e = fit_event self (art' (inference_type m)) m
               \<and> artifact_of env self2 (inference_type m) (art' (inference_type m)))"
      unfolding ff by blast
    have ao: "artifact_of env self2 = artifact_of env self"
      by (simp add: artifact_of_def fun_eq_iff ff)
    from run_inference_types_counts [OF continued(3)]
    have i1: "trace w' = trace w2 @ new_events w2 w'" by blast
    note tr2 = new_events_trans [OF tr(1) i1]
    define A where "A = art'(t := a)"
    have "\<forall>e\<in>set (new_events w w'). is_fit e \<longrightarrow>
            (\<exists>k m. map_of (metrics self) k = Some m \<and> inference_type m \<in> set (t # rest)
               \<and> e = fit_event self (A (inference_type m)) m
               \<and> artifact_of env self (inference_type m) (A (inference_type m)))"
    proof (intro ballI impI)
      fix e assume e: "e \<in> set (new_events w w')" "is_fit e"
      then consider "e \<in> set (new_events w1 w2)" | "e \<in> set (new_events w2 w')"
        using b1(5) by (auto simp: tr2(2) tr(2))
      then show "\<exists>k m. map_of (metrics self) k = Some m \<and> inference_type m \<in> set (t # rest)
               \<and> e = fit_event self (A (inference_type m)) m
               \<and> artifact_of env self (inference_type m) (A (inference_type m))"
      proof cases
        case 1
        with ev obtain n m where "n \<in> set (test_metrics self t)"
          "map_of (metrics self) n = Some m" "e = fit_event self a m"
          by blast
        moreover from this test_metrics_iff [OF Cons.prems(2)] have "inference_type m = t"
          by auto
        ultimately show ?thesis
          using art by (auto simp: A_def)
      next
        case 2
        with art' e(2) obtain k m where "map_of (metrics self) k = Some m"
          "inference_type m \<in> set rest" "e = fit_event self (art' (inference_type m)) m"
          "artifact_of env self2 (inference_type m) (art' (inference_type m))"
          by blast
        moreover from this \<open>t \<notin> set rest\<close> have "inference_type m \<noteq> t" by auto
        ultimately show ?thesis
          by (auto simp: A_def ao)
      qed
    qed
    then show ?thesis by blast
  qed
qed

lemma run_inference_types_results:
  assumes "run_inference_types env ts (self, w) = ((self', w'), out)"
  shows "self' = self\<lparr>results := results self'\<rparr> \<and>
     config_entries (results self') = config_entries (results self) \<and>
     (\<forall>t. t \<notin> set ts \<longrightarrow> inference_times (results self') t = inference_times (results self) t) \<and>
     (\<forall>n. (\<forall>t\<in>set ts. n \<notin> set (test_metrics self t)) \<longrightarrow>
          metric_scores (results self') n = metric_scores (results self) n) \<and>
     ((\<exists>u. out = Returned u) \<longrightarrow>
        (\<forall>t\<in>set ts. inference_times (results self') t \<noteq> None) \<and>
        (\<forall>t\<in>set ts. \<forall>n\<in>set (test_metrics self t). \<exists>sc tm.
            metric_scores (results self') n = Some [''score'' \<mapsto> sc, ''time'' \<mapsto> tm]))"
  using assms
proof (induction ts arbitrary: self w)
  case Nil
  then show ?case by simp
next
  case (Cons t rest)
  from Cons.prems(1) show ?case
  proof (cases rule: run_inference_types_Cons_cases)
    case (pass_raised e)
    from perform_inference_effect [OF pass_raised(1)] pass_raised(2) show ?thesis
      by simp
  next
    case (score_raised a \<tau> w1 e)
    from score_metrics_effect [OF score_raised(2)] score_raised(3) show ?thesis
      by (auto simp: set_inference_time_def)
  next
    case (continued a \<tau> w1 self2 w2)
    note sm = score_metrics_effect [OF continued(2)]
    from sm have "self2 = (set_inference_time t \<tau> self)\<lparr>results := results self2\<rparr>"
      by blast
    then have fr: "self2 = self\<lparr>results := results self2\<rparr>"
      by (simp add: set_inference_time_def)
    note ff = frame_fields [OF fr]
    note IH0 = Cons.IH [OF continued(3), unfolded ff]
    from IH0 have IHf: "self' = self2\<lparr>results := results self'\<rparr>"
      by (rule conjunct1)
    from IH0 have IH: "config_entries (results self') = config_entries (results self2)"
      "\<forall>t. t \<notin> set rest \<longrightarrow> inference_times (results self') t = inference_times (results self2) t"
      "\<forall>n. (\<forall>t\<in>set rest. n \<notin> set (test_metrics self t)) \<longrightarrow>
          metric_scores (results self') n = metric_scores (results self2) n"
      "(\<exists>u. out = Returned u) \<longrightarrow>
        (\<forall>t\<in>set rest. inference_times (results self') t \<noteq> None) \<and>
        (\<forall>t\<in>set rest. \<forall>n\<in>set (test_metrics self t). \<exists>sc tm.
            metric_scores (results self') n = Some [''score'' \<mapsto> sc, ''time'' \<mapsto> tm])"
      by blast+
    from sm have r2: "config_entries (results self2) = config_entries (results self)"
      "inference_times (results self2) = (inference_times (results self))(t \<mapsto> \<tau>)"
      "\<forall>n. n \<notin> set (test_metrics self t) \<longrightarrow> metric_scores (results self2) n = metric_scores (results self) n"
      "\<forall>n\<in>set (test_metrics self t). \<exists>sc tm.
          metric_scores (results self2) n = Some [''score'' \<mapsto> sc, ''time'' \<mapsto> tm]"
      by (simp_all, blast)
    have 1: "self' = self\<lparr>results := results self'\<rparr>"
      by (subst IHf, subst fr) simp
    have 2: "config_entries (results self') = config_entries (results self)"
      using IH(1) r2(1) by simp
    have 3: "\<forall>x. x \<notin> set (t # rest) \<longrightarrow> inference_times (results self') x = inference_times (results self) x"
      using IH(2) r2(2) by simp
    have 4: "\<forall>n. (\<forall>x\<in>set (t # rest). n \<notin> set (test_metrics self x)) \<longrightarrow>
          metric_scores (results self') n = metric_scores (results self) n"
      using IH(3) r2(3) by simp
    have 5: "\<forall>x\<in>set (t # rest). inference_times (results self') x \<noteq> None" if "\<exists>u. out = Returned u"
    proof
      fix x assume x: "x \<in> set (t # rest)"
      show "inference_times (results self') x \<noteq> None"
      proof (cases "x \<in> set rest")
        case True
        with IH(4) that show ?thesis by blast
      next
        case False
        with x have "x = t" by simp
        with False IH(2) r2(2) show ?thesis by simp
      qed
    qed
    have 6: "\<forall>x\<in>set (t # rest). \<forall>n\<in>set (test_metrics self x). \<exists>sc tm.
        metric_scores (results self') n = Some [''score'' \<mapsto> sc, ''time'' \<mapsto> tm]"
      if "\<exists>u. out = Returned u"
    proof (intro ballI)
      fix x n assume xn: "x \<in> set (t # rest)" "n \<in> set (test_metrics self x)"
      show "\<exists>sc tm. metric_scores (results self') n = Some [''score'' \<mapsto> sc, ''time'' \<mapsto> tm]"
      proof (cases "\<exists>y\<in>set rest. n \<in> set (test_metrics self y)")
        case True
        with IH(4) that show ?thesis by blast
      next
        case False
        with xn have n: "n \<in> set (test_metrics self t)" by auto
        from False IH(3) have "metric_scores (results self') n = metric_scores (results self2) n"
          by blast
        with r2(4) n show ?thesis by simp
      qed
    qed
    from 1 2 3 4 5 6 show ?thesis
      by (intro conjI impI) blast+
  qed
qed

lemma run_inference_types_scored:
  assumes "run_inference_types env ts (self, w) = ((self', w'), Returned u)"
  shows "\<forall>t\<in>set ts. \<forall>n\<in>set (test_metrics self t). \<exists>m a.
           map_of (metrics self) n = Some m \<and> fit_event self a m \<in> set (new_events w w')"
  using assms
proof (induction ts arbitrary: self w)
  case Nil
  then show ?case by simp
next
  case (Cons t rest)
  from Cons.prems(1) show ?case
  proof (cases rule: run_inference_types_Cons_cases)
    case (pass_raised e)
    then show ?thesis by simp
  next
    case (score_raised a \<tau> w1 e)
    then show ?thesis by simp
  next
    case (continued a \<tau> w1 self2 w2)
    note b1 = perform_inference_block [OF continued(1)]
    note b2 = score_metrics_block [OF continued(2)]
    note tr = new_events_trans [OF b1(1) b2(1)]
    from run_inference_types_counts [OF continued(3)]
    have i1: "trace w' = trace w2 @ new_events w2 w'" by blast
    note tr2 = new_events_trans [OF tr(1) i1]
    note sm = score_metrics_effect [OF continued(2)]
    from sm have "self2 = (set_inference_time t \<tau> self)\<lparr>results := results self2\<rparr>"
      by blast
    then have fr: "self2 = self\<lparr>results := results self2\<rparr>"
      by (simp add: set_inference_time_def)
    note ff = frame_fields [OF fr]
    note IH = Cons.IH [OF continued(3), unfolded ff]
    from sm b2(1) have here: "\<forall>n\<in>set (test_metrics self t). \<exists>m.
        map_of (metrics self) n = Some m \<and> fit_event self a m \<in> set (new_events w1 w2)"
      by (auto simp: fit_event_def dest!: new_events_append)
    show ?thesis
      using here IH by (auto simp: tr2(2) tr(2)) blast+
  qed
qed



subsection \<open>Kinds of events and persistence\<close>

lemma emits_onlyD:
  assumes "emits_only P m" "m (x, w) = ((x', w'), out)"
  shows "trace w' = trace w @ new_events w w'" "\<forall>e\<in>set (new_events w w'). P e"
proof -
  from assms obtain evs where "trace w' = trace w @ evs" "\<forall>e\<in>set evs. P e"
    unfolding emits_only_def by fastforce
  then show "trace w' = trace w @ new_events w w'" "\<forall>e\<in>set (new_events w w'). P e"
    by (simp_all add: new_events_def)
qed

lemma emits_only_weaken: "emits_only P m \<Longrightarrow> (\<And>e. P e \<Longrightarrow> Q e) \<Longrightarrow> emits_only Q m"
  unfolding emits_only_def by blast

lemma emits_only_basic:
  "emits_only P (returns v)" "emits_only P (raises err)" "emits_only P (of_result r)"
  "emits_only P (getitem d k)" "emits_only P (getattr name attr)"
  "emits_only P (time_now env)" "emits_only P get_self" "emits_only P (modify_self f)"
  "emits_only P get_world" "emits_only P (set_wandb_run b)"
  by (auto simp: emits_only_def of_result_def getitem_def get_world_def set_wandb_run_def
           split: sum.splits option.splits)

lemma emits_only_emit: "P e \<Longrightarrow> emits_only P (emit e)"
  by (auto simp: emits_only_def)

lemma emits_only_call: "P e \<Longrightarrow> emits_only P (call e r)"
  by (auto simp: emits_only_def split: sum.splits)

lemma emits_only_and_then:
  assumes "emits_only P m" "\<And>v. emits_only P (f v)"
  shows "emits_only P (and_then m f)"
  unfolding emits_only_def
proof (intro allI impI)
  fix s s' out assume run: "and_then m f s = (s', out)"
  then show "\<exists>evs. trace (snd s') = trace (snd s) @ evs \<and> (\<forall>e\<in>set evs. P e)"
  proof (cases rule: and_then_cases)
    case (raised s1 e)
    with assms(1) show ?thesis unfolding emits_only_def by blast
  next
    case (returned s1 v)
    from assms(1) returned(1) obtain evs1 where 1: "trace (snd s1) = trace (snd s) @ evs1" "\<forall>e\<in>set evs1. P e"
      unfolding emits_only_def by blast
    from assms(2) [of v] returned(2) obtain evs2 where 2: "trace (snd s') = trace (snd s1) @ evs2" "\<forall>e\<in>set evs2. P e"
      unfolding emits_only_def by blast
    from 1 2 show ?thesis
      by (intro exI [of _ "evs1 @ evs2"]) auto
  qed
qed

lemma emits_only_make_metrics: "emits_only P (make_metrics env config names acc)"
  by (induction names arbitrary: acc) (auto intro!: emits_only_and_then emits_only_basic)

lemma emits_only_create_metrics_dataset:
  assumes "\<And>ds k seed st. P (CallDropImages ds k seed st)" "\<And>msg. P (Warn msg)"
  shows "emits_only P (create_metrics_dataset env config train)"
  using assms
  by (auto simp: emits_only_def create_metrics_dataset_def and_then_apply
           split: sum.splits error.splits if_splits)

lemma emits_only_case_option:
  "emits_only P a \<Longrightarrow> (\<And>v. emits_only P (b v)) \<Longrightarrow> emits_only P (case c of None \<Rightarrow> a | Some v \<Rightarrow> b v)"
  by (cases c) simp_all

lemma emits_only_case_prod:
  "(\<And>a b. emits_only P (f a b)) \<Longrightarrow> emits_only P (case p of (a, b) \<Rightarrow> f a b)"
  by (cases p) simp

lemma emits_only_if:
  "emits_only P a \<Longrightarrow> emits_only P b \<Longrightarrow> emits_only P (if c then a else b)"
  by simp

lemma emits_only_init: "emits_only construction_event (init env config)"
  unfolding init_def
  apply (intro emits_only_and_then emits_only_basic emits_only_call emits_only_make_metrics
      emits_only_create_metrics_dataset emits_only_case_option emits_only_case_prod)
  apply (simp_all add: construction_event_def)
  done

lemma emits_only_init_wandb: "emits_only construction_event (init_wandb env config)"
  unfolding init_wandb_def
  apply (intro emits_only_and_then emits_only_basic emits_only_call emits_only_emit 
       emits_only_case_option emits_only_case_prod emits_only_if)
  apply (simp_all add: construction_event_def)
  done

lemma emits_only_with_self: "emits_only P m \<Longrightarrow> emits_only P (with_self self m)"
  unfolding emits_only_def with_self_def
  by (auto split: prod.splits)

lemma emits_only_run_experiment: "emits_only (\<lambda>e. \<not> is_json_dump e) (run_experiment env)"
  unfolding emits_only_def
proof (intro allI impI)
  fix s s' :: "model_metrics_experiment \<times> world" and out
  assume run: "run_experiment env s = (s', out)"
  obtain self w self' w' where s: "s = (self, w)" "s' = (self', w')"
    by (cases s, cases s')
  from run have "run_inference_types env (inference_types self) (self, w) = ((self', w'), out)"
    by (simp add: run_experiment_def and_then_apply s)
  from run_inference_types_counts [OF this]
  show "\<exists>evs. trace (snd s') = trace (snd s) @ evs \<and> (\<forall>e\<in>set evs. \<not> is_json_dump e)"
    by (auto simp: s)
qed

lemma save_results_effect:
  "save_results env (self, w) =
     ((self, w\<lparr>trace := trace w @ [CallJsonDump (save_path self) (results self)]\<rparr>),
      case json_dump env (save_path self) (results self) of Inl e \<Rightarrow> Raised e | Inr u \<Rightarrow> Returned u)"
  by (simp add: save_results_def and_then_apply)

lemma emits_only_log_wandb_results:
  "emits_only (\<lambda>e. \<not> is_json_dump e \<and> \<not> is_inference_work e \<and> \<not> is_fit e) (log_wandb_results env)"
  unfolding log_wandb_results_def
  apply (intro emits_only_and_then emits_only_basic emits_only_call)
    apply simp_all
  apply (auto simp: emits_only_def)
  done

lemma persists_after:
  assumes "emits_only (\<lambda>e. \<not> is_json_dump e) m" "\<And>v. persists_at_end k (f v)"
  shows "persists_at_end k (and_then m f)"
  unfolding persists_at_end_def
proof (intro allI impI)
  fix s s' out assume run: "and_then m f s = (s', out)"
  then show "\<exists>pre post. trace (snd s') = trace (snd s) @ pre @ post
           \<and> (\<forall>e\<in>set pre. \<not> is_json_dump e)
           \<and> (\<forall>e\<in>set post. \<not> is_inference_work e \<and> \<not> is_fit e)
           \<and> length (filter is_json_dump post) \<le> 1
           \<and> ((\<exists>u. out = Returned u) \<longrightarrow> length (filter is_json_dump post) = k)"
  proof (cases rule: and_then_cases)
    case (raised s1 e)
    from assms(1) raised(1) obtain evs where "trace (snd s1) = trace (snd s) @ evs"
      "\<forall>e\<in>set evs. \<not> is_json_dump e"
      unfolding emits_only_def by blast
    with raised show ?thesis
      by (intro exI [of _ evs] exI [of _ "[]"]) simp
  next
    case (returned s1 v)
    from assms(1) returned(1) obtain evs where 1: "trace (snd s1) = trace (snd s) @ evs"
      "\<forall>e\<in>set evs. \<not> is_json_dump e"
      unfolding emits_only_def by blast
    from assms(2) [of v, unfolded persists_at_end_def, rule_format, OF returned(2)]
    obtain pre post where 2:
      "trace (snd s') = trace (snd s1) @ pre @ post"
      "\<forall>e\<in>set pre. \<not> is_json_dump e"
      "\<forall>e\<in>set post. \<not> is_inference_work e \<and> \<not> is_fit e"
      "length (filter is_json_dump post) \<le> 1"
      "(\<exists>u. out = Returned u) \<longrightarrow> length (filter is_json_dump post) = k"
      by blast
    from 1 2 show ?thesis
      by (intro exI [of _ "evs @ pre"] exI [of _ post]) auto
  qed
qed

lemma persists_with_self: "persists_at_end k m \<Longrightarrow> persists_at_end k (with_self self m)"
  unfolding persists_at_end_def with_self_def
  by (auto split: prod.splits)

lemma persists_tail:
  "persists_at_end (if local_save then 1 else 0)
     (and_then (if local_save then save_results env else returns ()) (\<lambda>_.
        if use_wandb then log_wandb_results env else returns ()))"
  unfolding persists_at_end_def
proof (intro allI impI)
  fix s s' :: "model_metrics_experiment \<times> world" and out
  let ?L = "if use_wandb then log_wandb_results env else returns ()"
  assume run: "and_then (if local_save then save_results env else returns ()) (\<lambda>_. ?L) s = (s', out)"
  obtain self w where s: "s = (self, w)" by (cases s)
  have L: "emits_only (\<lambda>e. \<not> is_json_dump e \<and> \<not> is_inference_work e \<and> \<not> is_fit e) ?L"
    by (auto intro: emits_only_log_wandb_results emits_only_basic)
  let ?goal = "\<exists>pre post. trace (snd s') = trace (snd s) @ pre @ post
           \<and> (\<forall>e\<in>set pre. \<not> is_json_dump e)
           \<and> (\<forall>e\<in>set post. \<not> is_inference_work e \<and> \<not> is_fit e)
           \<and> length (filter is_json_dump post) \<le> 1
           \<and> ((\<exists>u. out = Returned u) \<longrightarrow> length (filter is_json_dump post) = (if local_save then 1 else 0))"
  show ?goal
  proof (cases local_save)
    case False
    with run have "?L s = (s', out)" by simp
    with L obtain evs where "trace (snd s') = trace (snd s) @ evs"
      "\<forall>e\<in>set evs. \<not> is_json_dump e \<and> \<not> is_inference_work e \<and> \<not> is_fit e"
      unfolding emits_only_def by blast
    with False show ?thesis
      by (intro exI [of _ "[]"] exI [of _ evs]) (simp add: filter_empty_conv)
  next
    case True
    let ?d = "CallJsonDump (save_path self) (results self)"
    let ?w1 = "w\<lparr>trace := trace w @ [?d]\<rparr>"
    show ?thesis
    proof (cases "json_dump env (save_path self) (results self)")
      case (Inl e)
      with run True have "s' = (self, ?w1)" "out = Raised e"
        by (simp_all add: and_then_apply save_results_effect s)
      then show ?thesis
        by (intro exI [of _ "[]"] exI [of _ "[?d]"]) (simp add: s)
    next
      case (Inr u)
      with run True have "?L (self, ?w1) = (s', out)"
        by (simp add: and_then_apply save_results_effect s)
      with L obtain evs where "trace (snd s') = trace ?w1 @ evs"
        "\<forall>e\<in>set evs. \<not> is_json_dump e \<and> \<not> is_inference_work e \<and> \<not> is_fit e"
        unfolding emits_only_def by fastforce
      with True show ?thesis
        by (intro exI [of _ "[]"] exI [of _ "?d # evs"]) (simp add: s filter_empty_conv)
    qed
  qed
qed

lemma persists_run_config:
  "persists_at_end (if config_local_save config then 1 else 0) (run_config env config)"
  unfolding run_config_def
  apply (intro persists_tail persists_with_self persists_after emits_only_run_experiment
      emits_only_if emits_only_case_option emits_only_basic emits_only_emit
      emits_only_weaken [OF emits_only_init] emits_only_weaken [OF emits_only_init_wandb])
  apply (simp_all add: construction_event_def)
  done

section \<open>Feature reduction\<close>

text \<open>
  C7. For every feature matrix and every seed, feature reduction with the target
  dimension unset returns the matrix unchanged.
\<close>

theorem feature_reduce_none_identity:
  "feature_reduce p F seed None = Inr F"
  by (simp add: feature_reduce_def)

text \<open>
  C6. For every feature matrix of shape \<open>(n, d)\<close> and every target dimension
  \<open>f > min n d\<close>, feature reduction fails with InvalidDimension. The PARC metric does
  not catch it (whether or not it scales the features first, scaling keeping the shape),
  and neither does \<open>compute_metric_score\<close>, the caller of \<^verbatim>\<open>fit_metric\<close> in the
  experiment: the error is raised to \<^verbatim>\<open>run_experiment\<close>.
\<close>

theorem feature_reduce_invalid_dimension:
  assumes "shape F = (n, d)" and "f > min n d"
  shows "feature_reduce p F seed (Some f) = Inl InvalidDimension
     \<and> (feat_red_dim self = Some f \<and> (scale_features self \<longrightarrow> shape (scale ops F) = shape F) \<longrightarrow>
          parc_fit_metric ops self F labs = Inl InvalidDimension
          \<and> compute_metric_score env (PARCMetric ops self) (Features F) labs (x, w)
              = ((x, w\<lparr>trace := trace w @ [CallFitMetric ''parc'' (Some ''features'') (Features F) labs],
                       ticks := Suc (ticks w)\<rparr>),
                 Raised InvalidDimension))"
  using assms
  by (auto simp: feature_reduce_def parc_fit_metric_def compute_metric_score_def PARCMetric_def and_then_apply)

theorem feature_reduce_invalid_dimension_witness:
  "shape [[1, 2], [3, 4]] = (2, 2) \<and> (3::nat) > min 2 2
   \<and> feature_reduce (pca demo_parc_ops) [[1, 2], [3, 4]] (PInt 42) (Some 3) = Inl InvalidDimension
   \<and> parc_fit_metric demo_parc_ops
        \<lparr>parc_random_state = PInt 42, feat_red_dim = Some 3, scale_features = True\<rparr>
        [[1, 2], [3, 4]] [0, 1] = Inl InvalidDimension"
proof -
  have s: "shape [[1, 2], [3, 4]] = (2, 2)"
    by (simp add: shape_def)
  have m: "(3::nat) > min 2 2"
    by simp
  from feature_reduce_invalid_dimension [OF s m, of "pca demo_parc_ops" "PInt 42"
      "\<lparr>parc_random_state = PInt 42, feat_red_dim = Some 3, scale_features = True\<rparr>"
      demo_parc_ops "[0, 1]"]
  show ?thesis
    using s m by (simp add: demo_parc_ops_def)
qed

section \<open>Evaluating the concrete environment\<close>


lemma startswith_append [simp]: "startswith (p @ s) p"
  by (simp add: startswith_def)

lemma demo_config_simps:
  "config_model_name demo_config = ''vit''"
  "config_dataset_name demo_config = ''dummy''"
  "config_dataset_args demo_config =
     [''train_split'' \<mapsto> PStr ''train'', ''val_split'' \<mapsto> PNone, ''test_split'' \<mapsto> PNone,
      ''image_field'' \<mapsto> PStr ''image'', ''label_field'' \<mapsto> PStr ''label'',
      ''keep_labels'' \<mapsto> PNone, ''val_size'' \<mapsto> PNone, ''test_size'' \<mapsto> PNone]"
  "config_n_samples demo_config = PInt 4"
  "config_metrics_samples demo_config = PInt 2"
  "config_random_state demo_config = PInt 42"
  "config_metrics demo_config = [''parc'', ''renggli'', ''n_pars'']"
  "config_metric_kwargs demo_config = Map.empty"
  "config_caches demo_config
     = Some [''datasets'' \<mapsto> PStr ''cache/datasets'', ''models'' \<mapsto> PStr ''cache/models'']"
  "config_save_dir demo_config = ''results''"
  "config_device demo_config = None"
  "config_local_save demo_config = True"
  "config_use_wandb demo_config = False"
  by (simp_all add: demo_config_def)

lemma demo_env_simps:
  "METRICS demo_env = demo_METRICS"
  "set_order demo_env = remdups"
  "load_dataset demo_env = (\<lambda>name image_field label_field cache_dir keep_labels.
                       Inr [PStr ''train'' \<mapsto> demo_dataset])"
  "create_data_splits demo_env = (\<lambda>loaded train_split val_split test_split seed val_size test_size.
                             Inr loaded)"
  "drop_images demo_env = (\<lambda>ds keep_size seed stratify_by_column. Inr ds)"
  "get_model_without_head demo_env = (\<lambda>name cache. Inr (Model name))"
  "get_processor demo_env = (\<lambda>name cache. Inr (Processor name))"
  "get_features demo_env = (\<lambda>ds processor model_fn dev. Inr (map (\<lambda>(image, label). [real image]) ds))"
  "to_dict demo_env = (\<lambda>config. [''model_name'' \<mapsto> PStr (config_model_name config)])"
  "makedirs demo_env = (\<lambda>path. Inr ())"
  "now_str demo_env = ''20240101-000000-000000''"
  "time demo_env = real"
  "json_dump demo_env = (\<lambda>path res. Inr ())"
  "wandb_log demo_env = (\<lambda>res. Inr ())"
  "wandb_finish demo_env = Inr ()"
  by (simp_all add: demo_env_def)

lemma demo_make_metrics:
  "make_metrics demo_env demo_config [''parc'', ''renggli'', ''n_pars''] [] s
     = (s, Returned (metrics demo_self))"
  by (simp add: demo_env_simps demo_config_simps demo_METRICS_def demo_self_def
        and_then_apply getitem_apply)

lemma demo_init:
  "init demo_env demo_config ((), demo_world) = (((), demo_world1), Returned demo_self)"
  unfolding init_def
  by (simp add: and_then_apply demo_make_metrics getitem_apply create_metrics_dataset_def
        demo_env_simps demo_config_simps demo_self_def demo_world_def demo_world1_def
        demo_dataset_def demo_metric_def demo_METRICS_def)

lemma single_member_env_simps:
  "METRICS single_member_env = demo_METRICS"
  "set_order single_member_env = remdups"
  "cuda_is_available single_member_env = False"
  "load_dataset single_member_env = load_dataset demo_env"
  "create_data_splits single_member_env = create_data_splits demo_env"
  "makedirs single_member_env = makedirs demo_env"
  "now_str single_member_env = now_str demo_env"
  "to_dict single_member_env = to_dict demo_env"
  "drop_images single_member_env =
     (\<lambda>ds keep_size seed stratify_by_column.
        if stratify_by_column = StratifyBy None then Inr (take 2 ds)
        else if keep_size = PInt 4 then Inr ds
        else Inl (ValueError (stratify_error_prefix @ '', which is too few.'')))"
  by (simp_all add: single_member_env_def demo_env_def)

lemma single_member_init:
  "\<exists>w' self. init single_member_env demo_config ((), demo_world) = (((), w'), Returned self)
     \<and> dataset self = [(0, 0), (1, 1)] \<and> labels self = [0, 1]
     \<and> new_events demo_world w' =
          [CallLoadDataset ''dummy'' (PStr ''image'') (PStr ''label'') (PStr ''cache/datasets'') PNone,
           CallCreateDataSplits,
           CallDropImages demo_dataset (PInt 4) (PInt 42) StratifyDefault,
           CallDropImages demo_dataset (PInt 2) (PInt 42) StratifyDefault,
           Warn stratify_warning,
           CallDropImages demo_dataset (PInt 2) (PInt 42) (StratifyBy None),
           CallMakedirs ''results'']"
  unfolding init_def
  by (simp add: and_then_apply getitem_apply create_metrics_dataset_def
        single_member_env_simps demo_env_simps demo_config_simps demo_world_def
        demo_dataset_def demo_metric_def demo_METRICS_def new_events_def)
lemma single_member_first:
  "drop_images single_member_env demo_dataset (config_metrics_samples demo_config)
     (config_random_state demo_config) StratifyDefault
   = Inl (ValueError (stratify_error_prefix @ '', which is too few.''))"
  by (simp add: single_member_env_def demo_env_def demo_config_def)


section \<open>Construction\<close>

text \<open>
  C2. In the block of \<^verbatim>\<open>__init__\<close> that subsets the train set to
  \<^verbatim>\<open>metrics_samples\<close>: when the first, stratified \<^verbatim>\<open>drop_images\<close> call fails
  with the \<^verbatim>\<open>ValueError\<close> that says the least populated class has only one member,
  the error is caught, the warning is emitted and the same request (same dataset, size
  and seed) is made again with \<^verbatim>\<open>stratify_by_column=None\<close>; what the second call
  returns is the result and what it raises is raised unchanged. Any other failure of the
  first call is raised unchanged, with no warning and no second call.
\<close>

theorem stratification_fallback:
  "(\<forall>msg. drop_images env train (config_metrics_samples config) (config_random_state config) StratifyDefault
            = Inl (ValueError msg) \<and> startswith msg stratify_error_prefix \<longrightarrow>
       create_metrics_dataset env config train (x, w) =
         ((x, w\<lparr>trace := trace w @
              [CallDropImages train (config_metrics_samples config) (config_random_state config) StratifyDefault,
               Warn stratify_warning,
               CallDropImages train (config_metrics_samples config) (config_random_state config) (StratifyBy None)]\<rparr>),
          (case drop_images env train (config_metrics_samples config) (config_random_state config) (StratifyBy None) of
             Inl e \<Rightarrow> Raised e | Inr ds \<Rightarrow> Returned ds)))
   \<and> (\<forall>e. drop_images env train (config_metrics_samples config) (config_random_state config) StratifyDefault
            = Inl e \<and> (\<forall>msg. e = ValueError msg \<longrightarrow> \<not> startswith msg stratify_error_prefix) \<longrightarrow>
       create_metrics_dataset env config train (x, w) =
         ((x, w\<lparr>trace := trace w @
              [CallDropImages train (config_metrics_samples config) (config_random_state config) StratifyDefault]\<rparr>),
          Raised e))
   \<and> (\<forall>ds. drop_images env train (config_metrics_samples config) (config_random_state config) StratifyDefault
            = Inr ds \<longrightarrow>
       create_metrics_dataset env config train (x, w) =
         ((x, w\<lparr>trace := trace w @
              [CallDropImages train (config_metrics_samples config) (config_random_state config) StratifyDefault]\<rparr>),
          Returned ds))"
  by (auto simp: create_metrics_dataset_def and_then_apply split: sum.splits error.splits)

theorem stratification_fallback_witness:
  "drop_images single_member_env demo_dataset (config_metrics_samples demo_config)
     (config_random_state demo_config) StratifyDefault
     = Inl (ValueError (stratify_error_prefix @ '', which is too few.''))
   \<and> startswith (stratify_error_prefix @ '', which is too few.'') stratify_error_prefix
   \<and> create_metrics_dataset single_member_env demo_config demo_dataset ((), demo_world) =
       (((), \<lparr>trace = [CallDropImages demo_dataset (PInt 2) (PInt 42) StratifyDefault,
                        Warn stratify_warning,
                        CallDropImages demo_dataset (PInt 2) (PInt 42) (StratifyBy None)],
              ticks = 0, wandb_run = False\<rparr>),
        Returned [(0, 0), (1, 1)])
   \<and> (\<exists>w' self. init single_member_env demo_config ((), demo_world) = (((), w'), Returned self)
         \<and> dataset self = [(0, 0), (1, 1)] \<and> Warn stratify_warning \<in> set (new_events demo_world w'))"
proof -
  have r: "drop_images single_member_env demo_dataset (config_metrics_samples demo_config)
     (config_random_state demo_config) (StratifyBy None) = Inr [(0, 0), (1, 1)]"
    by (simp add: single_member_env_def demo_env_def demo_config_def demo_dataset_def)
  from stratification_fallback [of single_member_env demo_dataset demo_config "()" demo_world]
    single_member_first
  have "create_metrics_dataset single_member_env demo_config demo_dataset ((), demo_world) =
         (((), demo_world\<lparr>trace := trace demo_world @
              [CallDropImages demo_dataset (config_metrics_samples demo_config) (config_random_state demo_config) StratifyDefault,
               Warn stratify_warning,
               CallDropImages demo_dataset (config_metrics_samples demo_config) (config_random_state demo_config) (StratifyBy None)]\<rparr>),
          Returned [(0, 0), (1, 1)])"
    by (simp add: r)
  moreover have "\<exists>w' self. init single_member_env demo_config ((), demo_world) = (((), w'), Returned self)
         \<and> dataset self = [(0, 0), (1, 1)] \<and> Warn stratify_warning \<in> set (new_events demo_world w')"
    using single_member_init by force
  ultimately show ?thesis
    using single_member_first by (simp add: demo_world_def demo_config_def)
qed


text \<open>
  C10. For every configuration with \<^verbatim>\<open>caches\<close> set to \<^verbatim>\<open>None\<close> construction
  fails, and it fails before anything is called or loaded. When the metrics initialise
  and the \<^verbatim>\<open>dataset_args\<close> hold the image and label fields (as \<^verbatim>\<open>Config.__init__\<close>
  sets them), so that construction reaches the loading of the dataset, the failure is the
  attribute error on \<^verbatim>\<open>self.dataset_cache\<close>. Whenever construction returns an object,
  \<^verbatim>\<open>caches\<close> is a mapping with the keys \<^verbatim>\<open>"datasets"\<close> and \<^verbatim>\<open>"models"\<close>.
\<close>

theorem caches_required:
  "(config_caches config = None \<longrightarrow>
      fst (init env config (x, w)) = (x, w)
      \<and> (\<exists>e. snd (init env config (x, w)) = Raised e)
      \<and> ((\<exists>ms. make_metrics env config (config_metrics config) [] (x, w) = ((x, w), Returned ms))
           \<and> config_dataset_args config ''image_field'' \<noteq> None
           \<and> config_dataset_args config ''label_field'' \<noteq> None \<longrightarrow>
         snd (init env config (x, w)) = Raised (AttributeError ''dataset_cache'')))
   \<and> (\<forall>x' w' self. init env config (x, w) = ((x', w'), Returned self) \<longrightarrow>
         (\<exists>caches d m. config_caches config = Some caches
            \<and> caches ''datasets'' = Some d \<and> caches ''models'' = Some m
            \<and> dataset_cache self = Some d \<and> model_cache self = Some m))"
proof (intro conjI impI allI)
  assume "config_caches config = None"
  then show "fst (init env config (x, w)) = (x, w)" "\<exists>e. snd (init env config (x, w)) = Raised e"
    by (rule init_caches_None)+
next
  assume "config_caches config = None"
    and "(\<exists>ms. make_metrics env config (config_metrics config) [] (x, w) = ((x, w), Returned ms))
           \<and> config_dataset_args config ''image_field'' \<noteq> None
           \<and> config_dataset_args config ''label_field'' \<noteq> None"
  then show "snd (init env config (x, w)) = Raised (AttributeError ''dataset_cache'')"
    using init_caches_None(3) by blast
next
  fix x' w' self assume "init env config (x, w) = ((x', w'), Returned self)"
  from init_Returned [OF this]
  show "\<exists>caches d m. config_caches config = Some caches
            \<and> caches ''datasets'' = Some d \<and> caches ''models'' = Some m
            \<and> dataset_cache self = Some d \<and> model_cache self = Some m"
    by blast
qed

theorem caches_required_witness:
  "config_caches no_caches_config = None
   \<and> init demo_env no_caches_config ((), demo_world)
       = (((), demo_world), Raised (AttributeError ''dataset_cache''))
   \<and> init demo_env demo_config ((), demo_world) = (((), demo_world1), Returned demo_self)
   \<and> (\<exists>caches. config_caches demo_config = Some caches
         \<and> caches ''datasets'' = dataset_cache demo_self
         \<and> caches ''models'' = model_cache demo_self
         \<and> dataset_cache demo_self \<noteq> None \<and> model_cache demo_self \<noteq> None)"
proof -
  have c: "config_caches no_caches_config = None"
    by (simp add: no_caches_config_def)
  have m: "make_metrics demo_env no_caches_config (config_metrics no_caches_config) [] ((), demo_world)
      = (((), demo_world), Returned (metrics demo_self))"
    by (simp add: no_caches_config_def demo_env_simps demo_config_simps demo_METRICS_def
          demo_self_def and_then_apply getitem_apply)
  have f: "config_dataset_args no_caches_config ''image_field'' \<noteq> None"
    "config_dataset_args no_caches_config ''label_field'' \<noteq> None"
    by (simp_all add: no_caches_config_def demo_config_simps)
  from caches_required [of no_caches_config demo_env "()" demo_world] c m f
  have "fst (init demo_env no_caches_config ((), demo_world)) = ((), demo_world)"
    "snd (init demo_env no_caches_config ((), demo_world)) = Raised (AttributeError ''dataset_cache'')"
    by blast+
  then have 1: "init demo_env no_caches_config ((), demo_world)
       = (((), demo_world), Raised (AttributeError ''dataset_cache''))"
    by (simp add: prod_eq_iff)
  from caches_required [of demo_config demo_env "()" demo_world] demo_init
  have 2: "\<exists>caches. config_caches demo_config = Some caches
         \<and> caches ''datasets'' = dataset_cache demo_self
         \<and> caches ''models'' = model_cache demo_self
         \<and> dataset_cache demo_self \<noteq> None \<and> model_cache demo_self \<noteq> None"
    by fastforce
  from c 1 2 demo_init show ?thesis
    by blast
qed


section \<open>Running the experiment\<close>


lemma init_established:
  assumes "init env config (x, w0) = ((x', w1), Returned self)" and "set_order_ok env"
  shows "distinct (map fst (metrics self))"
    and "distinct (inference_types self)"
    and "set (inference_types self) = inference_type ` snd ` set (metrics self)"
    and "labels self = map snd (dataset self)"
    and "fst ` set (metrics self) = set (config_metrics config)"
proof -
  from init_Returned [OF assms(1)] obtain ms where ms:
    "make_metrics env config (config_metrics config) [] (x, w0) = ((x, w0), Returned ms)"
    "metrics self = ms"
    "inference_types self = set_order env (map (\<lambda>(name, obj). inference_type obj) ms)"
    "labels self = map snd (dataset self)"
    by auto
  from make_metrics_keys [OF ms(1)] have k: "distinct (map fst ms)" "fst ` set ms = set (config_metrics config)"
    by auto
  from assms(2) have so: "distinct (set_order env xs)" "set (set_order env xs) = set xs" for xs
    by (auto simp: set_order_ok_def)
  show "distinct (map fst (metrics self))" "fst ` set (metrics self) = set (config_metrics config)"
    using k ms(2) by auto
  show "distinct (inference_types self)"
    by (simp add: ms(3) so)
  show "set (inference_types self) = inference_type ` snd ` set (metrics self)"
    by (force simp: ms(2,3) so)
  show "labels self = map snd (dataset self)"
    by (rule ms(4))
qed

lemma run_inference_types_append:
  "run_inference_types env (xs @ ys) s =
     (case run_inference_types env xs s of
        (s1, Raised e) \<Rightarrow> (s1, Raised e)
      | (s1, Returned u) \<Rightarrow> run_inference_types env ys s1)"
proof (induction xs arbitrary: s)
  case Nil
  then show ?case by simp
next
  case (Cons t rest)
  obtain self w where s: "s = (self, w)" by (cases s)
  show ?case
    by (simp add: s run_inference_types_Cons Cons.IH split: prod.splits outcome.splits)
qed

lemma perform_inference_unsupported:
  assumes "\<not> supported t"
  shows "perform_inference env t (self, w) =
     ((self, w\<lparr>trace := trace w @ [CallPerformInference t], ticks := Suc (ticks w)\<rparr>),
      Raised (NotImplementedError (not_implemented_message (the t))))"
  using assms by (cases t) (auto simp: perform_inference_def and_then_apply supported_def)

lemma saliency_config_simps:
  "config_model_name saliency_config = ''vit''"
  "config_dataset_name saliency_config = ''dummy''"
  "config_dataset_args saliency_config = config_dataset_args demo_config"
  "config_n_samples saliency_config = PInt 4"
  "config_metrics_samples saliency_config = PInt 2"
  "config_random_state saliency_config = PInt 42"
  "config_metrics saliency_config = [''parc'', ''saliency'']"
  "config_metric_kwargs saliency_config = Map.empty"
  "config_caches saliency_config
     = Some [''datasets'' \<mapsto> PStr ''cache/datasets'', ''models'' \<mapsto> PStr ''cache/models'']"
  "config_save_dir saliency_config = ''results''"
  "config_device saliency_config = None"
  "config_local_save saliency_config = True"
  "config_use_wandb saliency_config = False"
  by (simp_all add: saliency_config_def demo_config_def)

lemmas run_evaluation =
  run_experiment_def run_inference_types_Cons score_metrics_Cons
  perform_inference_def features_inference_def model_inference_def test_metrics_def
  and_then_apply set_metric_entry_def set_inference_time_def

lemma saliency_init:
  "\<exists>w1 self. init demo_env saliency_config ((), demo_world) = (((), w1), Returned self)
     \<and> (''saliency'', demo_metric ''saliency'' (Some ''image'')) \<in> set (metrics self)"
  unfolding init_def
  by (simp add: and_then_apply getitem_apply create_metrics_dataset_def
        demo_env_simps saliency_config_simps demo_config_simps demo_world_def
        demo_dataset_def demo_METRICS_def)

lemma set_order_ok_demo: "set_order_ok demo_env"
  by (simp add: set_order_ok_def demo_env_simps)


text \<open>
  C3 as stated fails: on the concrete environment with the metrics \<^verbatim>\<open>parc\<close>
  (features) and \<^verbatim>\<open>saliency\<close> (of the unimplemented type \<^verbatim>\<open>image\<close>), and the
  iteration order features first, the run extracts the features and scores
  \<^verbatim>\<open>parc\<close> before it raises the \<^verbatim>\<open>NotImplementedError\<close>.
\<close>

theorem unsupported_type_counterexample:
  "run_config demo_env saliency_config ((), demo_world) =
     (((), \<lparr>trace =
              [CallLoadDataset ''dummy'' (PStr ''image'') (PStr ''label'') (PStr ''cache/datasets'') PNone,
               CallCreateDataSplits,
               CallDropImages demo_dataset (PInt 4) (PInt 42) StratifyDefault,
               CallDropImages demo_dataset (PInt 2) (PInt 42) StratifyDefault,
               CallMakedirs ''results'',
               CallPerformInference (Some ''features''),
               CallFeaturesInference,
               CallGetModelWithoutHead ''vit'' (PStr ''cache/models''),
               CallGetProcessor ''vit'' (PStr ''cache/models''),
               CallGetFeatures demo_dataset (Processor ''vit'') (Model ''vit'') (Device None),
               CallFitMetric ''parc'' (Some ''features'') (Features [[0], [1], [2], [3]]) [0, 1, 0, 1],
               CallPerformInference (Some ''image'')],
            ticks = 5, wandb_run = False\<rparr>),
      Raised (NotImplementedError (not_implemented_message ''image'')))"
  unfolding run_config_def init_def
  by (simp add: run_evaluation with_self_def getitem_apply create_metrics_dataset_def
        demo_env_simps saliency_config_simps demo_config_simps demo_world_def
        demo_dataset_def demo_metric_def demo_METRICS_def)


text \<open>
  C3, amended. For every experiment one of whose metrics declares a non-null inference
  type that \<open>perform_inference\<close> does not implement: \<open>perform_inference\<close> on that
  type raises \<^verbatim>\<open>NotImplementedError\<close> having done nothing but take the start time;
  the run never completes; and with the inference types in iteration order
  \<open>pre @ t # post\<close>, \<open>t\<close> the unsupported type, the run first does the passes and
  the scoring of \<open>pre\<close>, fails with their error if one of them fails, and otherwise
  fails with the \<^verbatim>\<open>NotImplementedError\<close> for \<open>t\<close> before any inference work for
  \<open>t\<close> or \<open>post\<close>.
\<close>

theorem unsupported_type_fails:
  assumes "init env config (x, w0) = ((x', w1), Returned self)"
    and "set_order_ok env"
    and "(n, m) \<in> set (metrics self)"
    and "\<not> supported (inference_type m)"
  shows "perform_inference env (inference_type m) (self, w) =
           ((self, w\<lparr>trace := trace w @ [CallPerformInference (inference_type m)],
                     ticks := Suc (ticks w)\<rparr>),
            Raised (NotImplementedError (not_implemented_message (the (inference_type m)))))
       \<and> (\<exists>e. snd (run_experiment env (self, w)) = Raised e)
       \<and> (\<exists>pre post. inference_types self = pre @ inference_type m # post
             \<and> inference_type m \<notin> set pre
             \<and> run_experiment env (self, w) =
                 (case run_inference_types env pre (self, w) of
                    (s1, Raised e) \<Rightarrow> (s1, Raised e)
                  | ((self1, w1), Returned u) \<Rightarrow>
                      ((self1, w1\<lparr>trace := trace w1 @ [CallPerformInference (inference_type m)],
                                  ticks := Suc (ticks w1)\<rparr>),
                       Raised (NotImplementedError (not_implemented_message (the (inference_type m)))))))"
proof (intro conjI)
  let ?t = "inference_type m"
  show "perform_inference env ?t (self, w) =
           ((self, w\<lparr>trace := trace w @ [CallPerformInference ?t], ticks := Suc (ticks w)\<rparr>),
            Raised (NotImplementedError (not_implemented_message (the ?t))))"
    using assms(4) by (rule perform_inference_unsupported)
  from init_established(3) [OF assms(1,2)] assms(3) have t: "?t \<in> set (inference_types self)"
    by force
  obtain s' out where run: "run_experiment env (self, w) = (s', out)"
    by (cases "run_experiment env (self, w)")
  obtain self' w' where s': "s' = (self', w')" by (cases s')
  from run have "run_inference_types env (inference_types self) (self, w) = ((self', w'), out)"
    by (simp add: run_experiment_def and_then_apply s')
  from unsupported_never_returns [OF this t assms(4)] run
  show "\<exists>e. snd (run_experiment env (self, w)) = Raised e"
    by auto
  from t obtain pre post where split: "inference_types self = pre @ ?t # post" "?t \<notin> set pre"
    by (meson split_list_first)
  have "run_experiment env (self, w) =
          (case run_inference_types env pre (self, w) of
             (s1, Raised e) \<Rightarrow> (s1, Raised e)
           | ((self1, w1), Returned u) \<Rightarrow>
               ((self1, w1\<lparr>trace := trace w1 @ [CallPerformInference ?t], ticks := Suc (ticks w1)\<rparr>),
                Raised (NotImplementedError (not_implemented_message (the ?t)))))"
    using assms(4)
    by (simp add: run_experiment_def and_then_apply split(1) run_inference_types_append
          run_inference_types_Cons perform_inference_unsupported split: prod.splits outcome.splits)
  with split show "\<exists>pre post. inference_types self = pre @ ?t # post \<and> ?t \<notin> set pre
             \<and> run_experiment env (self, w) =
                 (case run_inference_types env pre (self, w) of
                    (s1, Raised e) \<Rightarrow> (s1, Raised e)
                  | ((self1, w1), Returned u) \<Rightarrow>
                      ((self1, w1\<lparr>trace := trace w1 @ [CallPerformInference ?t],
                                  ticks := Suc (ticks w1)\<rparr>),
                       Raised (NotImplementedError (not_implemented_message (the ?t)))))"
    by blast
qed

theorem unsupported_type_fails_witness:
  "\<exists>w1 self. init demo_env saliency_config ((), demo_world) = (((), w1), Returned self)
     \<and> set_order_ok demo_env
     \<and> (''saliency'', demo_metric ''saliency'' (Some ''image'')) \<in> set (metrics self)
     \<and> \<not> supported (inference_type (demo_metric ''saliency'' (Some ''image'')))
     \<and> (\<exists>e. snd (run_experiment demo_env (self, w1)) = Raised e)"
proof -
  from saliency_init obtain w1 self where
    i: "init demo_env saliency_config ((), demo_world) = (((), w1), Returned self)"
    and m: "(''saliency'', demo_metric ''saliency'' (Some ''image'')) \<in> set (metrics self)"
    by blast
  have u: "\<not> supported (inference_type (demo_metric ''saliency'' (Some ''image'')))"
    by (simp add: supported_def demo_metric_def)
  from unsupported_type_fails [OF i set_order_ok_demo m u, of w1]
  have "\<exists>e. snd (run_experiment demo_env (self, w1)) = Raised e"
    by blast
  with i m u set_order_ok_demo show ?thesis
    by blast
qed



lemma count_list_distinct: "distinct xs \<Longrightarrow> count_list xs x = (if x \<in> set xs then 1 else 0)"
  by (induction xs) auto

lemma run_experiment_loop:
  "run_experiment env (self, w) = run_inference_types env (inference_types self) (self, w)"
  by (simp add: run_experiment_def and_then_apply)

lemma demo_run_events:
  "\<exists>self' w2. run_experiment demo_env (demo_self, demo_world1) = ((self', w2), Returned ())
     \<and> new_events demo_world1 w2 =
          [CallPerformInference (Some ''features''),
           CallFeaturesInference,
           CallGetModelWithoutHead ''vit'' (PStr ''cache/models''),
           CallGetProcessor ''vit'' (PStr ''cache/models''),
           CallGetFeatures demo_dataset (Processor ''vit'') (Model ''vit'') (Device None),
           CallFitMetric ''parc'' (Some ''features'') (Features [[0], [1], [2], [3]]) [0, 1, 0, 1],
           CallFitMetric ''renggli'' (Some ''features'') (Features [[0], [1], [2], [3]]) [0, 1, 0, 1],
           CallPerformInference (Some ''model''),
           CallModelInference,
           CallGetModelWithoutHead ''vit'' (PStr ''cache/models''),
           CallFitMetric ''n_pars'' (Some ''model'') (ModelInput (Model ''vit'')) [0, 1, 0, 1]]"
  by (simp add: run_evaluation demo_self_def demo_env_simps demo_metric_def demo_world1_def
        demo_dataset_def new_events_def)

lemma features_by_sample_demo: "features_by_sample demo_env"
  by (auto simp: features_by_sample_def demo_env_simps)


text \<open>
  C1. For every configuration, whatever duplicates its metrics' inference types have: in
  every run, completed or not, each inference type is passed to \<open>perform_inference\<close>
  at most once, \<open>features_inference\<close> and \<open>model_inference\<close> are entered at most once
  each, and every scoring call is for a metric of the experiment and gets the artifact of
  the pass of the metric's inference type (one artifact per type). In every completed run
  each declared inference type is passed exactly once, so that feature extraction is
  entered exactly once when some metric declares \<^verbatim>\<open>"features"\<close> and model loading
  exactly once when some metric declares \<^verbatim>\<open>"model"\<close>, and every metric is scored.
  Feature extraction and model loading are the methods \<open>features_inference\<close> and
  \<open>model_inference\<close>; the model provider \<^verbatim>\<open>get_model_without_head\<close> is called
  inside both.
\<close>

theorem inference_once_per_type:
  assumes "init env config (x, w0) = ((x', w1), Returned self)"
    and "set_order_ok env"
    and "run_experiment env (self, w) = ((self', w'), out)"
  shows "(\<forall>t. count_list (new_events w w') (CallPerformInference t) \<le> 1)
       \<and> count_list (new_events w w') CallFeaturesInference \<le> 1
       \<and> count_list (new_events w w') CallModelInference \<le> 1
       \<and> (\<exists>art. \<forall>e\<in>set (new_events w w'). is_fit e \<longrightarrow>
             (\<exists>k m. (k, m) \<in> set (metrics self) \<and> e = fit_event self (art (inference_type m)) m))
       \<and> (out = Returned () \<longrightarrow>
            (\<forall>t. count_list (new_events w w') (CallPerformInference t)
                   = (if t \<in> inference_type ` snd ` set (metrics self) then 1 else 0))
            \<and> count_list (new_events w w') CallFeaturesInference
                   = (if Some ''features'' \<in> inference_type ` snd ` set (metrics self) then 1 else 0)
            \<and> count_list (new_events w w') CallModelInference
                   = (if Some ''model'' \<in> inference_type ` snd ` set (metrics self) then 1 else 0)
            \<and> (\<forall>(k, m)\<in>set (metrics self). \<exists>a. fit_event self a m \<in> set (new_events w w')))"
proof -
  let ?ts = "inference_types self"
  let ?evs = "new_events w w'"
  note est = init_established [OF assms(1,2)]
  from assms(3) have run: "run_inference_types env ?ts (self, w) = ((self', w'), out)"
    by (simp add: run_experiment_loop)
  note c = run_inference_types_counts [OF run]
  have ts: "count_list ?ts t = (if t \<in> inference_type ` snd ` set (metrics self) then 1 else 0)" for t
    using count_list_distinct [OF est(2)] est(3) by simp
  from c have le: "count_list ?evs (CallPerformInference t) \<le> count_list ?ts t" for t
    by blast
  have 1: "\<forall>t. count_list ?evs (CallPerformInference t) \<le> 1"
  proof
    fix t show "count_list ?evs (CallPerformInference t) \<le> 1"
      using le [of t] ts [of t] by (simp split: if_splits)
  qed
  from c have f: "count_list ?evs CallFeaturesInference = count_list ?evs (CallPerformInference (Some ''features''))"
    and m: "count_list ?evs CallModelInference = count_list ?evs (CallPerformInference (Some ''model''))"
    by blast+
  have 2: "count_list ?evs CallFeaturesInference \<le> 1" "count_list ?evs CallModelInference \<le> 1"
    using 1 f m by simp_all
  from run_inference_types_fits [OF run est(1) est(2)] obtain art where
    art: "\<forall>e\<in>set ?evs. is_fit e \<longrightarrow>
            (\<exists>k m. map_of (metrics self) k = Some m \<and> inference_type m \<in> set ?ts
               \<and> e = fit_event self (art (inference_type m)) m
               \<and> artifact_of env self (inference_type m) (art (inference_type m)))"
    by blast
  have 3: "\<exists>art. \<forall>e\<in>set ?evs. is_fit e \<longrightarrow>
             (\<exists>k m. (k, m) \<in> set (metrics self) \<and> e = fit_event self (art (inference_type m)) m)"
  proof (intro exI [of _ art] ballI impI)
    fix e assume "e \<in> set ?evs" "is_fit e"
    with art obtain k m where "map_of (metrics self) k = Some m"
      "e = fit_event self (art (inference_type m)) m"
      by blast
    then show "\<exists>k m. (k, m) \<in> set (metrics self) \<and> e = fit_event self (art (inference_type m)) m"
      by (blast dest: map_of_SomeD)
  qed
  have 4: "(\<forall>t. count_list ?evs (CallPerformInference t)
                   = (if t \<in> inference_type ` snd ` set (metrics self) then 1 else 0))
            \<and> count_list ?evs CallFeaturesInference
                   = (if Some ''features'' \<in> inference_type ` snd ` set (metrics self) then 1 else 0)
            \<and> count_list ?evs CallModelInference
                   = (if Some ''model'' \<in> inference_type ` snd ` set (metrics self) then 1 else 0)
            \<and> (\<forall>(k, m)\<in>set (metrics self). \<exists>a. fit_event self a m \<in> set ?evs)"
    if ret: "out = Returned ()"
  proof -
    from c ret have eq: "count_list ?evs (CallPerformInference t) = count_list ?ts t" for t
      by blast
    have a: "\<forall>t. count_list ?evs (CallPerformInference t)
                   = (if t \<in> inference_type ` snd ` set (metrics self) then 1 else 0)"
      using eq ts by simp
    from run ret have "run_inference_types env ?ts (self, w) = ((self', w'), Returned ())"
      by simp
    note sc = run_inference_types_scored [OF this]
    have b: "\<exists>a. fit_event self a m \<in> set ?evs" if km: "(k, m) \<in> set (metrics self)" for k m
    proof -
      from km est(1) have mo: "map_of (metrics self) k = Some m"
        by simp
      from km est(3) have "inference_type m \<in> set ?ts"
        by force
      moreover from mo have "k \<in> set (test_metrics self (inference_type m))"
        by (simp add: test_metrics_iff [OF est(1)])
      ultimately obtain m' a where "map_of (metrics self) k = Some m'"
        "fit_event self a m' \<in> set ?evs"
        using sc by blast
      with mo show ?thesis by auto
    qed
    from a b show ?thesis
      by (auto simp: f m)
  qed
  from 1 2 3 4 show ?thesis
    by blast
qed

theorem inference_once_per_type_witness:
  "init demo_env demo_config ((), demo_world) = (((), demo_world1), Returned demo_self)
   \<and> set_order_ok demo_env
   \<and> map (\<lambda>(name, obj). inference_type obj) (metrics demo_self)
       = [Some ''features'', Some ''features'', Some ''model'']
   \<and> (\<exists>self' w2. run_experiment demo_env (demo_self, demo_world1) = ((self', w2), Returned ())
         \<and> count_list (new_events demo_world1 w2) CallFeaturesInference = 1
         \<and> count_list (new_events demo_world1 w2) CallModelInference = 1)"
proof -
  from demo_run_events obtain self' w2 where
    run: "run_experiment demo_env (demo_self, demo_world1) = ((self', w2), Returned ())"
    by blast
  have types: "map (\<lambda>(name, obj). inference_type obj) (metrics demo_self)
       = [Some ''features'', Some ''features'', Some ''model'']"
    by (simp add: demo_self_def demo_metric_def)
  then have "inference_type ` snd ` set (metrics demo_self) = {Some ''features'', Some ''model''}"
    by (simp add: demo_self_def demo_metric_def)
  with inference_once_per_type [OF demo_init set_order_ok_demo run]
  have "count_list (new_events demo_world1 w2) CallFeaturesInference = 1"
    "count_list (new_events demo_world1 w2) CallModelInference = 1"
    by simp_all
  with run types demo_init set_order_ok_demo show ?thesis
    by blast
qed


text \<open>
  C8. For every scoring call of a run, the labels passed to \<^verbatim>\<open>fit_metric\<close> are the
  label column of the dataset the experiment holds after subsampling, and for a metric
  whose inference type is \<^verbatim>\<open>"features"\<close> the model input is the feature matrix that
  \<^verbatim>\<open>get_features\<close> returned on that same dataset; when \<^verbatim>\<open>get_features\<close> computes
  row \<open>i\<close> from sample \<open>i\<close>, the matrix has one row per label and row \<open>i\<close> and
  label \<open>i\<close> belong to the same sample.
\<close>

theorem labels_match_model_input:
  assumes "init env config (x, w0) = ((x', w1), Returned self)"
    and "set_order_ok env"
    and "run_experiment env (self, w) = ((self', w'), out)"
  shows "\<forall>n t a l. CallFitMetric n t a l \<in> set (new_events w w') \<longrightarrow>
           l = map snd (dataset self)
           \<and> (t = Some ''features'' \<longrightarrow>
                (\<exists>F p m. a = Features F
                   \<and> get_features env (dataset self) p m (device self) = Inr F
                   \<and> (features_by_sample env \<longrightarrow>
                        length F = length l
                        \<and> (\<exists>embed. \<forall>i<length l.
                              F ! i = embed (dataset self ! i) \<and> l ! i = snd (dataset self ! i)))))"
proof (intro allI impI)
  fix n t a l
  let ?ts = "inference_types self"
  assume ev: "CallFitMetric n t a l \<in> set (new_events w w')"
  note est = init_established [OF assms(1,2)]
  from assms(3) have run: "run_inference_types env ?ts (self, w) = ((self', w'), out)"
    by (simp add: run_experiment_loop)
  from run_inference_types_fits [OF run est(1) est(2)] ev obtain A k m where
    e: "CallFitMetric n t a l = fit_event self A m" and ao: "artifact_of env self (inference_type m) A"
    by fastforce
  from e have l: "l = map snd (dataset self)" and t: "t = inference_type m" and a: "a = A"
    by (simp_all add: fit_event_def est(4))
  have "\<exists>F p m. a = Features F
          \<and> get_features env (dataset self) p m (device self) = Inr F
          \<and> (features_by_sample env \<longrightarrow>
                length F = length l
                \<and> (\<exists>embed. \<forall>i<length l.
                      F ! i = embed (dataset self ! i) \<and> l ! i = snd (dataset self ! i)))"
    if "t = Some ''features''"
  proof -
    from that ao t a obtain F p mo where F: "a = Features F"
      "get_features env (dataset self) p mo (device self) = Inr F"
      by (auto simp: artifact_of_def)
    have "length F = length l
          \<and> (\<exists>embed. \<forall>i<length l. F ! i = embed (dataset self ! i) \<and> l ! i = snd (dataset self ! i))"
      if "features_by_sample env"
    proof -
      from that F(2) obtain embed where "F = map embed (dataset self)"
        unfolding features_by_sample_def by blast
      then show ?thesis
        by (auto simp: l intro!: exI [of _ embed])
    qed
    with F show ?thesis by blast
  qed
  with l show "l = map snd (dataset self)
           \<and> (t = Some ''features'' \<longrightarrow>
                (\<exists>F p m. a = Features F
                   \<and> get_features env (dataset self) p m (device self) = Inr F
                   \<and> (features_by_sample env \<longrightarrow>
                        length F = length l
                        \<and> (\<exists>embed. \<forall>i<length l.
                              F ! i = embed (dataset self ! i) \<and> l ! i = snd (dataset self ! i)))))"
    by blast
qed

theorem labels_match_model_input_witness:
  "init demo_env demo_config ((), demo_world) = (((), demo_world1), Returned demo_self)
   \<and> set_order_ok demo_env \<and> features_by_sample demo_env
   \<and> (\<exists>self' w2. run_experiment demo_env (demo_self, demo_world1) = ((self', w2), Returned ())
         \<and> CallFitMetric ''parc'' (Some ''features'') (Features [[0], [1], [2], [3]]) [0, 1, 0, 1]
              \<in> set (new_events demo_world1 w2)
         \<and> [0, 1, 0, 1] = map snd (dataset demo_self)
         \<and> get_features demo_env (dataset demo_self) (Processor ''vit'') (Model ''vit'') (device demo_self)
              = Inr [[0], [1], [2], [3]]
         \<and> length [[0], [1], [2], [3::real]] = length [0, 1, 0, 1::nat])"
proof -
  from demo_run_events obtain self' w2 where
    run: "run_experiment demo_env (demo_self, demo_world1) = ((self', w2), Returned ())"
    and ev: "CallFitMetric ''parc'' (Some ''features'') (Features [[0], [1], [2], [3]]) [0, 1, 0, 1]
              \<in> set (new_events demo_world1 w2)"
    by auto
  from labels_match_model_input [OF demo_init set_order_ok_demo run, rule_format, OF ev]
  have "[0, 1, 0, 1] = map snd (dataset demo_self)"
    by blast
  moreover have "get_features demo_env (dataset demo_self) (Processor ''vit'') (Model ''vit'')
      (device demo_self) = Inr [[0], [1], [2], [3]]"
    by (simp add: demo_env_simps demo_self_def demo_dataset_def)
  ultimately show ?thesis
    using run ev demo_init set_order_ok_demo features_by_sample_demo by auto
qed



lemma nosave_config_simps:
  "config_model_name nosave_config = ''vit''"
  "config_dataset_name nosave_config = ''dummy''"
  "config_dataset_args nosave_config = config_dataset_args demo_config"
  "config_n_samples nosave_config = PInt 4"
  "config_metrics_samples nosave_config = PInt 2"
  "config_random_state nosave_config = PInt 42"
  "config_metrics nosave_config = [''parc'', ''renggli'', ''n_pars'']"
  "config_metric_kwargs nosave_config = Map.empty"
  "config_caches nosave_config
     = Some [''datasets'' \<mapsto> PStr ''cache/datasets'', ''models'' \<mapsto> PStr ''cache/models'']"
  "config_save_dir nosave_config = ''results''"
  "config_device nosave_config = None"
  "config_local_save nosave_config = False"
  "config_use_wandb nosave_config = False"
  by (simp_all add: nosave_config_def demo_config_def)


text \<open>
  C9 as stated fails: \<^verbatim>\<open>run_config\<close> calls \<^verbatim>\<open>save_results\<close> only under
  \<^verbatim>\<open>if config.local_save\<close>. On the concrete environment with \<^verbatim>\<open>local_save\<close> off
  the run completes and the results are persisted zero times.
\<close>

theorem persisted_once_counterexample:
  "run_config demo_env nosave_config ((), demo_world) =
     (((), \<lparr>trace =
              [CallLoadDataset ''dummy'' (PStr ''image'') (PStr ''label'') (PStr ''cache/datasets'') PNone,
               CallCreateDataSplits,
               CallDropImages demo_dataset (PInt 4) (PInt 42) StratifyDefault,
               CallDropImages demo_dataset (PInt 2) (PInt 42) StratifyDefault,
               CallMakedirs ''results'',
               CallPerformInference (Some ''features''),
               CallFeaturesInference,
               CallGetModelWithoutHead ''vit'' (PStr ''cache/models''),
               CallGetProcessor ''vit'' (PStr ''cache/models''),
               CallGetFeatures demo_dataset (Processor ''vit'') (Model ''vit'') (Device None),
               CallFitMetric ''parc'' (Some ''features'') (Features [[0], [1], [2], [3]]) [0, 1, 0, 1],
               CallFitMetric ''renggli'' (Some ''features'') (Features [[0], [1], [2], [3]]) [0, 1, 0, 1],
               CallPerformInference (Some ''model''),
               CallModelInference,
               CallGetModelWithoutHead ''vit'' (PStr ''cache/models''),
               CallFitMetric ''n_pars'' (Some ''model'') (ModelInput (Model ''vit'')) [0, 1, 0, 1]],
            ticks = 10, wandb_run = False\<rparr>),
      Returned ())
   \<and> length (filter is_json_dump (trace (snd (fst (run_config demo_env nosave_config ((), demo_world)))))) = 0"
proof -
  have "run_config demo_env nosave_config ((), demo_world) =
     (((), \<lparr>trace =
              [CallLoadDataset ''dummy'' (PStr ''image'') (PStr ''label'') (PStr ''cache/datasets'') PNone,
               CallCreateDataSplits,
               CallDropImages demo_dataset (PInt 4) (PInt 42) StratifyDefault,
               CallDropImages demo_dataset (PInt 2) (PInt 42) StratifyDefault,
               CallMakedirs ''results'',
               CallPerformInference (Some ''features''),
               CallFeaturesInference,
               CallGetModelWithoutHead ''vit'' (PStr ''cache/models''),
               CallGetProcessor ''vit'' (PStr ''cache/models''),
               CallGetFeatures demo_dataset (Processor ''vit'') (Model ''vit'') (Device None),
               CallFitMetric ''parc'' (Some ''features'') (Features [[0], [1], [2], [3]]) [0, 1, 0, 1],
               CallFitMetric ''renggli'' (Some ''features'') (Features [[0], [1], [2], [3]]) [0, 1, 0, 1],
               CallPerformInference (Some ''model''),
               CallModelInference,
               CallGetModelWithoutHead ''vit'' (PStr ''cache/models''),
               CallFitMetric ''n_pars'' (Some ''model'') (ModelInput (Model ''vit'')) [0, 1, 0, 1]],
            ticks = 10, wandb_run = False\<rparr>),
      Returned ())"
    unfolding run_config_def init_def
    by (simp add: run_evaluation with_self_def getitem_apply create_metrics_dataset_def
          demo_env_simps nosave_config_simps demo_config_simps demo_world_def
          demo_dataset_def demo_metric_def demo_METRICS_def)
  then show ?thesis
    by simp
qed


text \<open>
  C9, amended. The results record is created at construction as the entries of the
  configuration's dict with empty \<^verbatim>\<open>inference_times\<close> and \<^verbatim>\<open>metric_scores\<close>, and
  construction persists nothing. \<^verbatim>\<open>run_experiment\<close> changes no attribute but the
  results, leaves the configuration entries as they are, adds entries only for the
  declared inference types and for the metrics of the experiment, and persists nothing;
  when it completes there is one \<^verbatim>\<open>inference_times\<close> entry per distinct inference
  type and one \<^verbatim>\<open>metric_scores\<close> entry with exactly a score and a time per metric.
  \<^verbatim>\<open>save_results\<close> makes exactly one JSON dump of the results to the save path and
  changes nothing. \<^verbatim>\<open>run_config\<close> persists at the end, after all inference and
  scoring, at most once, and in a completed run exactly once when
  \<^verbatim>\<open>config.local_save\<close> is set and not at all otherwise.
\<close>

theorem results_record_lifecycle:
  assumes "init env config (x, w0) = ((x', w1), Returned self)"
    and "set_order_ok env"
  shows "results self =
           \<lparr>config_entries = to_dict env config |` (- {''inference_times'', ''metric_scores''}),
            inference_times = Map.empty, metric_scores = Map.empty\<rparr>
       \<and> (\<forall>e\<in>set (new_events w0 w1). \<not> is_json_dump e)
       \<and> (\<forall>w self' w' out. run_experiment env (self, w) = ((self', w'), out) \<longrightarrow>
             self' = self\<lparr>results := results self'\<rparr>
             \<and> config_entries (results self') = config_entries (results self)
             \<and> dom (inference_times (results self')) \<subseteq> inference_type ` snd ` set (metrics self)
             \<and> dom (metric_scores (results self')) \<subseteq> fst ` set (metrics self)
             \<and> (\<forall>e\<in>set (new_events w w'). \<not> is_json_dump e)
             \<and> (out = Returned () \<longrightarrow>
                  dom (inference_times (results self')) = inference_type ` snd ` set (metrics self)
                  \<and> dom (metric_scores (results self')) = set (config_metrics config)
                  \<and> (\<forall>n\<in>set (config_metrics config). \<exists>sc tm.
                        metric_scores (results self') n = Some [''score'' \<mapsto> sc, ''time'' \<mapsto> tm])))
       \<and> (\<forall>s w. save_results env (s, w) =
             ((s, w\<lparr>trace := trace w @ [CallJsonDump (save_path s) (results s)]\<rparr>),
              case json_dump env (save_path s) (results s) of Inl e \<Rightarrow> Raised e | Inr u \<Rightarrow> Returned u))
       \<and> persists_at_end (if config_local_save config then 1 else 0) (run_config env config)"
proof (intro conjI allI impI)
  note est = init_established [OF assms]
  from init_Returned [OF assms(1)]
  show fresh: "results self =
           \<lparr>config_entries = to_dict env config |` (- {''inference_times'', ''metric_scores''}),
            inference_times = Map.empty, metric_scores = Map.empty\<rparr>"
    by auto
  from emits_onlyD(2) [OF emits_only_init assms(1)]
  show "\<forall>e\<in>set (new_events w0 w1). \<not> is_json_dump e"
    by (simp add: construction_event_def)
  show "save_results env (s, w) =
             ((s, w\<lparr>trace := trace w @ [CallJsonDump (save_path s) (results s)]\<rparr>),
              case json_dump env (save_path s) (results s) of Inl e \<Rightarrow> Raised e | Inr u \<Rightarrow> Returned u)"
    for s w
    by (rule save_results_effect)
  show "persists_at_end (if config_local_save config then 1 else 0) (run_config env config)"
    by (rule persists_run_config)
  fix w self' w' out
  assume "run_experiment env (self, w) = ((self', w'), out)"
  then have run: "run_inference_types env (inference_types self) (self, w) = ((self', w'), out)"
    by (simp add: run_experiment_loop)
  note r = run_inference_types_results [OF run]
  from r show "self' = self\<lparr>results := results self'\<rparr>"
    by (rule conjunct1)
  from r show "config_entries (results self') = config_entries (results self)"
    by blast
  from r have it: "\<forall>t. t \<notin> set (inference_types self) \<longrightarrow> inference_times (results self') t = None"
    and ms: "\<forall>n. (\<forall>t\<in>set (inference_types self). n \<notin> set (test_metrics self t)) \<longrightarrow>
          metric_scores (results self') n = None"
    by (simp_all add: fresh)
  have tm: "set (test_metrics self t) \<subseteq> fst ` set (metrics self)" for t
    by (auto simp: test_metrics_def)
  from it show d1: "dom (inference_times (results self')) \<subseteq> inference_type ` snd ` set (metrics self)"
    unfolding est(3) [symmetric] by (auto simp: dom_def)
  from ms tm show d2: "dom (metric_scores (results self')) \<subseteq> fst ` set (metrics self)"
    by (fastforce simp: dom_def)
  from run_inference_types_counts [OF run]
  show "\<forall>e\<in>set (new_events w w'). \<not> is_json_dump e"
    by blast
  assume ret: "out = Returned ()"
  with r have all_t: "\<forall>t\<in>set (inference_types self). inference_times (results self') t \<noteq> None"
    and all_m: "\<forall>t\<in>set (inference_types self). \<forall>n\<in>set (test_metrics self t). \<exists>sc tm.
            metric_scores (results self') n = Some [''score'' \<mapsto> sc, ''time'' \<mapsto> tm]"
    by blast+
  from all_t d1 show "dom (inference_times (results self')) = inference_type ` snd ` set (metrics self)"
    unfolding est(3) [symmetric] by (auto simp: dom_def)
  have entry: "\<exists>sc tm. metric_scores (results self') n = Some [''score'' \<mapsto> sc, ''time'' \<mapsto> tm]"
    if "n \<in> set (config_metrics config)" for n
  proof -
    from that est(5) obtain m where km: "(n, m) \<in> set (metrics self)"
      by force
    with est(1) have "map_of (metrics self) n = Some m"
      by simp
    then have "n \<in> set (test_metrics self (inference_type m))"
      by (simp add: test_metrics_iff [OF est(1)])
    moreover from km est(3) have "inference_type m \<in> set (inference_types self)"
      by force
    ultimately show ?thesis
      using all_m by blast
  qed
  then show "\<forall>n\<in>set (config_metrics config). \<exists>sc tm.
      metric_scores (results self') n = Some [''score'' \<mapsto> sc, ''time'' \<mapsto> tm]"
    by blast
  from entry d2 show "dom (metric_scores (results self')) = set (config_metrics config)"
    unfolding est(5) [symmetric] by (fastforce simp: dom_def)
qed

theorem results_record_lifecycle_witness:
  "init demo_env demo_config ((), demo_world) = (((), demo_world1), Returned demo_self)
   \<and> set_order_ok demo_env
   \<and> inference_times (results demo_self) = Map.empty
   \<and> metric_scores (results demo_self) = Map.empty
   \<and> (\<exists>self' w2. run_experiment demo_env (demo_self, demo_world1) = ((self', w2), Returned ())
         \<and> config_entries (results self') = config_entries (results demo_self)
         \<and> dom (inference_times (results self')) = {Some ''features'', Some ''model''}
         \<and> dom (metric_scores (results self')) = {''parc'', ''renggli'', ''n_pars''})
   \<and> persists_at_end 1 (run_config demo_env demo_config)"
proof -
  note life = results_record_lifecycle [OF demo_init set_order_ok_demo]
  from demo_run_events obtain self' w2 where
    run: "run_experiment demo_env (demo_self, demo_world1) = ((self', w2), Returned ())"
    by blast
  note created = life [THEN conjunct1]
  note ran = life [THEN conjunct2, THEN conjunct2, THEN conjunct1, rule_format, OF run]
  have fresh: "inference_times (results demo_self) = Map.empty"
    "metric_scores (results demo_self) = Map.empty"
    by (simp_all add: created)
  from ran have after: "config_entries (results self') = config_entries (results demo_self)"
    "dom (inference_times (results self')) = inference_type ` snd ` set (metrics demo_self)"
    "dom (metric_scores (results self')) = set (config_metrics demo_config)"
    by blast+
  have types: "inference_type ` snd ` set (metrics demo_self) = {Some ''features'', Some ''model''}"
    by (simp add: demo_self_def demo_metric_def)
  have names: "set (config_metrics demo_config) = {''parc'', ''renggli'', ''n_pars''}"
    by (simp add: demo_config_simps)
  from life have "persists_at_end (if config_local_save demo_config then 1 else 0)
      (run_config demo_env demo_config)"
    by (elim conjE)
  then have "persists_at_end 1 (run_config demo_env demo_config)"
    by (simp add: demo_config_simps)
  with demo_init set_order_ok_demo fresh run after types names show ?thesis
    by auto
qed

end
